theory Spec2Isabelle
  imports Main "HOL-Library.Word" "HOL-Library.Sublist"
begin

section \<open>Strings\<close>

text \<open>
  A string of the loader is a sequence of UTF-16 code units, which is what \<^verbatim>\<open>split\<close>,
  \<^verbatim>\<open>trim\<close>, the regular expression \<^verbatim>\<open>\d\<close> and string equality work on. A literal of the
  source is written \<open>utf16 ''...''\<close>; a character beyond Latin-1 is given by its code units.
\<close>

type_synonym jsstring = "16 word list"

definition utf16 :: "string \<Rightarrow> jsstring" where
  "utf16 s = map of_char s"

text \<open>
  \<^verbatim>\<open>String.prototype.split\<close> with a string separator: the parts between the occurrences of
  the separator, found from left to right, the search resuming behind each occurrence. With
  the empty separator the string falls into its code units.
\<close>

function splitParts :: "'a list \<Rightarrow> 'a list \<Rightarrow> 'a list \<Rightarrow> 'a list list" where
  "splitParts sep part [] = [part]"
| "splitParts sep part (x # xs) =
     (if sep \<noteq> [] \<and> prefix sep (x # xs)
      then part # splitParts sep [] (drop (length sep) (x # xs))
      else splitParts sep (part @ [x]) xs)"
  by pat_completeness auto
termination
  by (relation "measure (\<lambda>(sep, part, s). length s)") auto

definition split :: "'a list \<Rightarrow> 'a list \<Rightarrow> 'a list list" where
  "split s sep = (if sep = [] then map (\<lambda>c. [c]) s else splitParts sep [] s)"

text \<open>
  \<^verbatim>\<open>String.prototype.trim\<close> removes white space and line terminators from both ends: TAB, LF,
  VT, FF, CR, SP, NBSP, the space separators of Unicode, LS, PS and the byte order mark.
\<close>

definition isWhiteSpace :: "16 word \<Rightarrow> bool" where
  "isWhiteSpace c \<longleftrightarrow>
     (0x0009 \<le> c \<and> c \<le> 0x000D) \<or> c = 0x0020 \<or> c = 0x00A0 \<or> c = 0x1680 \<or>
     (0x2000 \<le> c \<and> c \<le> 0x200A) \<or> c = 0x2028 \<or> c = 0x2029 \<or> c = 0x202F \<or>
     c = 0x205F \<or> c = 0x3000 \<or> c = 0xFEFF"

definition trim :: "jsstring \<Rightarrow> jsstring" where
  "trim s = rev (dropWhile isWhiteSpace (rev (dropWhile isWhiteSpace s)))"

section \<open>The course manifest\<close>

text \<open>
  \<^verbatim>\<open>config.json\<close>: the course and its chapters. The field \<^verbatim>\<open>id\<close> of a chapter is \<open>chapterId\<close>
  here and \<^verbatim>\<open>type\<close> is \<open>chapterType\<close>; \<open>exercise\<close> is \<open>None\<close> when the chapter has none.
\<close>

record Chapter =
  chapterId :: jsstring
  title :: jsstring
  chapterType :: jsstring
  duration :: jsstring
  exercise :: "jsstring option"

record CourseConfig =
  courseName :: jsstring
  description :: jsstring
  version :: jsstring
  institution :: jsstring
  chapters :: "Chapter list"

text \<open>
  What the loader caches and hands on: the text of a chapter or an exercise, or a manifest.
  A lookup that finds nothing yields \<^verbatim>\<open>null\<close>, here \<open>None\<close>. \<open>truthy\<close> is the test \<^verbatim>\<open>if (cached)\<close>:
  \<^verbatim>\<open>null\<close> and the empty string fail it, every object passes it.
\<close>

datatype data = Text jsstring | Manifest CourseConfig

fun truthy :: "data option \<Rightarrow> bool" where
  "truthy None = False"
| "truthy (Some (Text s)) = (s \<noteq> [])"
| "truthy (Some (Manifest c)) = True"

section \<open>The loader instance\<close>

record loader =
  baseUrl :: jsstring
  courseId :: jsstring
  localMode :: bool
  container :: jsstring
  cacheEnabled :: bool
  cacheDuration :: int
  marker :: jsstring
  config :: "data option"
  currentChapter :: "Chapter option"
  cacheVersion :: jsstring

text \<open>The options of the constructor; a key the caller leaves out is \<open>None\<close>.\<close>

record options =
  optBaseUrl :: "jsstring option"
  optCourseId :: "jsstring option"
  optContainer :: "jsstring option"
  optCacheEnabled :: "bool option"
  optCacheDuration :: "int option"

definition sentinel :: jsstring where
  "sentinel = utf16 ''<!-- HIER_STARTET_DER_INHALT -->''"

text \<open>\<^verbatim>\<open>options.x || d\<close>: the default stands in for a missing key, an empty string and zero.\<close>

definition orString :: "jsstring option \<Rightarrow> jsstring \<Rightarrow> jsstring" where
  "orString v d = (case v of None \<Rightarrow> d | Some s \<Rightarrow> if s = [] then d else s)"

definition orNumber :: "int option \<Rightarrow> int \<Rightarrow> int" where
  "orNumber v d = (case v of None \<Rightarrow> d | Some n \<Rightarrow> if n = 0 then d else n)"

text \<open>
  The constructor, up to its call of \<open>init\<close>; \<open>hostname\<close> is \<^verbatim>\<open>window.location.hostname\<close>.
\<close>

definition CourseLoader :: "jsstring \<Rightarrow> options \<Rightarrow> loader" where
  "CourseLoader hostname opts =
     (let local = (hostname = utf16 ''localhost'' \<or> hostname = utf16 ''127.0.0.1'') in
      \<lparr> baseUrl =
          (if local then []
           else orString (optBaseUrl opts)
             (utf16 ''https://purge.jsdelivr.net/gh/andrkelb-school/SW_Situation_1_BauMax@latest'')),
        courseId = orString (optCourseId opts) (utf16 ''situation_1''),
        localMode = local,
        container = orString (optContainer opts) (utf16 ''#content_container''),
        cacheEnabled = (optCacheEnabled opts \<noteq> Some False),
        cacheDuration = orNumber (optCacheDuration opts) 3600000,
        marker = sentinel,
        config = None,
        currentChapter = None,
        cacheVersion = utf16 ''v1.0.0'' \<rparr>)"

section \<open>Extracting the content between the markers\<close>

definition extractContent :: "loader \<Rightarrow> jsstring \<Rightarrow> jsstring" where
  "extractContent l html =
     (let parts = split html (marker l) in
      if length parts < 3 then html else trim (parts ! 1))"


section \<open>Numbers\<close>

text \<open>
  A number of the loader is an IEEE double. The numbers met here are natural numbers, and the
  model keeps the exact value of the double. \<open>round53\<close> is the double nearest to a natural
  number (ties to the even significand): every natural number up to \<open>2 ^ 53\<close> is a double,
  beyond that the doubles thin out.
\<close>

fun bitLength :: "nat \<Rightarrow> nat" where
  "bitLength n = (if n = 0 then 0 else Suc (bitLength (n div 2)))"

definition round53 :: "nat \<Rightarrow> nat" where
  "round53 n =
     (let e = bitLength n - 53; q = n div 2 ^ e; r = n mod 2 ^ e in
      (if 2 * r > 2 ^ e \<or> (2 * r = 2 ^ e \<and> odd q) then q + 1 else q) * 2 ^ e)"

text \<open>Decimal digits, as a template literal writes an integer.\<close>

definition digit :: "nat \<Rightarrow> 16 word" where
  "digit d = 0x30 + of_nat d"

function decimal :: "nat \<Rightarrow> jsstring" where
  "decimal n = (if n < 10 then [digit n] else decimal (n div 10) @ [digit (n mod 10)])"
  by pat_completeness auto
termination
  by (relation "measure id") auto

definition showInt :: "int \<Rightarrow> jsstring" where
  "showInt i = (if i < 0 then utf16 ''-'' @ decimal (nat (- i)) else decimal (nat i))"

text \<open>
  The browser the loader runs in, as far as the loader meets it: what a request to a URL
  brings (after how many milliseconds), the text a number beyond \<open>2 ^ 53\<close> is written as
  (the shortest digits that read back as the same double, an exponent from \<open>10 ^ 21\<close> on),
  and the text of a member every object inherits (\<^verbatim>\<open>function toString() { [native code] }\<close>
  in most engines). The model fixes none of the three.
\<close>

datatype js_error = Error (message: jsstring)

record response =
  status :: nat
  bodyText :: "js_error + jsstring"
  bodyJson :: "js_error + CourseConfig"

datatype fetch_result = Rejected js_error | Resolved response

record platform =
  network :: "jsstring \<Rightarrow> nat \<times> fetch_result"
  largeNumberText :: "nat \<Rightarrow> jsstring"
  inheritedText :: "jsstring \<Rightarrow> jsstring"

definition numberToString :: "platform \<Rightarrow> nat \<Rightarrow> jsstring" where
  "numberToString P n = (if n \<le> 2 ^ 53 then decimal n else largeNumberText P n)"

section \<open>The total duration\<close>

text \<open>
  \<^verbatim>\<open>ch.duration.match(/(\d+)/)\<close>: the first run of decimal digits of the string, anywhere in
  it, or no match. \<^verbatim>\<open>parseInt\<close> of such a run is the double nearest to its decimal value.
\<close>

definition isDigit :: "16 word \<Rightarrow> bool" where
  "isDigit c \<longleftrightarrow> 0x30 \<le> c \<and> c \<le> 0x39"

definition matchDigits :: "jsstring \<Rightarrow> jsstring option" where
  "matchDigits s =
     (let rest = dropWhile (\<lambda>c. \<not> isDigit c) s in
      if rest = [] then None else Some (takeWhile isDigit rest))"

definition decimalValue :: "jsstring \<Rightarrow> nat" where
  "decimalValue ds = foldl (\<lambda>n c. 10 * n + unat (c - 0x30)) 0 ds"

definition parseInt :: "jsstring \<Rightarrow> nat" where
  "parseInt ds = round53 (decimalValue ds)"

text \<open>The body of the \<^verbatim>\<open>forEach\<close> in \<open>getTotalDuration\<close>, on the running total.\<close>

definition addDuration :: "nat \<Rightarrow> Chapter \<Rightarrow> nat" where
  "addDuration tot ch =
     (case matchDigits (duration ch) of
        None \<Rightarrow> tot
      | Some m \<Rightarrow> round53 (tot + parseInt m))"

definition getTotalDuration :: "platform \<Rightarrow> CourseConfig \<Rightarrow> jsstring" where
  "getTotalDuration P c =
     numberToString P (foldl addDuration 0 (chapters c)) @ utf16 '' min''"

section \<open>The table of contents\<close>

definition icon :: "Chapter \<Rightarrow> jsstring" where
  "icon ch = (if chapterType ch = utf16 ''intro'' then [0xD83C, 0xDFAC] else [0xD83D, 0xDCD6])"

definition tocHead :: "jsstring" where
  \<open>tocHead =
     utf16 ''\<newline>'' @
     utf16 ''      <nav class="inhaltsverzeichnis" style="position: sticky; top: 0;">\<newline>'' @
     utf16 ''        <h4 style="margin: 0 0 1rem 0; color: #005691; border-bottom: 2px solid #005691; padding-bottom: 0.5rem;">\<newline>'' @
     utf16 ''          '' @
     [0xD83D, 0xDCDA] @
     utf16 '' Inhaltsverzeichnis\<newline>'' @
     utf16 ''        </h4>\<newline>'' @
     utf16 ''        <ul style="list-style: none; padding: 0; margin: 0;">\<newline>'' @
     utf16 ''    ''\<close>

definition tocEntry :: "Chapter \<Rightarrow> jsstring" where
  \<open>tocEntry ch =
     utf16 ''\<newline>'' @
     utf16 ''        <li style="margin-bottom: 0.5rem;">\<newline>'' @
     utf16 ''          <a href="#" data-chapter-id="'' @
     chapterId ch @
     utf16 ''" class="toc-link" style="\<newline>'' @
     utf16 ''            display: block;\<newline>'' @
     utf16 ''            padding: 0.5rem;\<newline>'' @
     utf16 ''            border-radius: 4px;\<newline>'' @
     utf16 ''            transition: all 0.3s ease;\<newline>'' @
     utf16 ''            cursor: pointer;\<newline>'' @
     utf16 ''          " onmouseover="this.style.backgroundColor='#e3f2fd'; this.style.paddingLeft='1rem';" \<newline>'' @
     utf16 ''             onmouseout="this.style.backgroundColor='transparent'; this.style.paddingLeft='0.5rem';">\<newline>'' @
     utf16 ''            '' @
     icon ch @
     utf16 '' '' @
     chapterId ch @
     utf16 '': '' @
     title ch @
     utf16 ''\<newline>'' @
     utf16 ''            <small style="display: block; color: #999; font-size: 0.8em; margin-top: 0.25rem;">\<newline>'' @
     utf16 ''              '' @
     [0x23F1, 0xFE0F] @
     utf16 '' '' @
     duration ch @
     utf16 ''\<newline>'' @
     utf16 ''            </small>\<newline>'' @
     utf16 ''          </a>\<newline>'' @
     utf16 ''        </li>\<newline>'' @
     utf16 ''      ''\<close>

definition tocFoot :: "jsstring \<Rightarrow> jsstring" where
  \<open>tocFoot totalDuration =
     utf16 ''\<newline>'' @
     utf16 ''        </ul>\<newline>'' @
     utf16 ''        <div style="margin-top: 1.5rem; padding-top: 1rem; border-top: 1px solid #ddd; font-size: 0.85em; color: #666;">\<newline>'' @
     utf16 ''          <p style="margin: 0;"><strong>Summe:</strong> '' @
     totalDuration @
     utf16 ''</p>\<newline>'' @
     utf16 ''          <p style="margin: 0.5rem 0 0 0;">\<newline>'' @
     utf16 ''            <button onclick="location.reload()" style="\<newline>'' @
     utf16 ''              background: #005691;\<newline>'' @
     utf16 ''              color: white;\<newline>'' @
     utf16 ''              border: none;\<newline>'' @
     utf16 ''              padding: 0.5rem 1rem;\<newline>'' @
     utf16 ''              border-radius: 4px;\<newline>'' @
     utf16 ''              cursor: pointer;\<newline>'' @
     utf16 ''              font-size: 0.9em;\<newline>'' @
     utf16 ''              width: 100%;\<newline>'' @
     utf16 ''            ">'' @
     [0xD83D, 0xDD04] @
     utf16 '' Cache l'' @
     [0x00F6] @
     utf16 ''schen</button>\<newline>'' @
     utf16 ''          </p>\<newline>'' @
     utf16 ''        </div>\<newline>'' @
     utf16 ''      </nav>\<newline>'' @
     utf16 ''    ''\<close>

definition renderTableOfContents :: "platform \<Rightarrow> CourseConfig \<Rightarrow> jsstring" where
  "renderTableOfContents P c =
     foldl (\<lambda>html ch. html @ tocEntry ch) tocHead (chapters c) @ tocFoot (getTotalDuration P c)"



section \<open>The browser's storage, clock and log of calls\<close>

text \<open>
  An item of \<^verbatim>\<open>localStorage\<close>, as \<^verbatim>\<open>JSON.parse\<close> and the destructuring
  \<^verbatim>\<open>{ data, timestamp }\<close> read it: the envelope \<open>saveToCache\<close> writes
  (\<^verbatim>\<open>JSON.stringify\<close> and \<^verbatim>\<open>JSON.parse\<close> are inverse on it), or a string that does not
  parse (the empty string among them). Items of other shapes, which only another program
  could have stored, are outside the model.
\<close>

datatype item = Unparsable | Envelope data int

text \<open>
  \<open>Full\<close>: \<^verbatim>\<open>setItem\<close> throws (the quota is used up). \<open>Blocked\<close>: every access to
  \<^verbatim>\<open>localStorage\<close> throws.
\<close>

datatype storageMode = Available | Full | Blocked

text \<open>The calls to the browser that change something or leave the page, in their order.\<close>

datatype effect = Fetch jsstring | SetItem jsstring | RemoveItem jsstring

text \<open>
  The page, as far as the loader reads and writes it: whether the selector
  \<open>container\<close> finds an element; the \<^verbatim>\<open>innerHTML\<close> of the header and of the column of the
  table of contents that the loader has appended to it last; and the \<^verbatim>\<open>innerHTML\<close> of the
  elements with the id \<^verbatim>\<open>chapter_content\<close>, in the order of the document: the first one
  that stands before the place at which the loader appends (\<open>contentAhead\<close>), the content
  column that the loader has appended first (\<open>contentColumn\<close>), and the first one that stands
  behind the container (\<open>contentBehind\<close>). \<open>None\<close>: there is no such element. Pages on
  which an element with this id holds the container, or comes with the markup of the header
  or of the table of contents, are outside the model.
\<close>

record page =
  containerFound :: bool
  courseHeader :: "jsstring option"
  tocColumn :: "jsstring option"
  contentAhead :: "jsstring option"
  contentColumn :: "jsstring option"
  contentBehind :: "jsstring option"

text \<open>\<open>clock\<close> is \<^verbatim>\<open>Date.now()\<close>, in milliseconds.\<close>

record world =
  clock :: int
  localStorage :: "jsstring \<Rightarrow> item option"
  storageMode :: storageMode
  effects :: "effect list"
  document :: page

section \<open>The cache\<close>

definition storageKey :: "loader \<Rightarrow> jsstring \<Rightarrow> jsstring" where
  "storageKey l key = cacheVersion l @ utf16 ''_'' @ key"

text \<open>
  \<open>getFromCache\<close> returns the data and the world it leaves. Whatever is thrown inside its
  \<^verbatim>\<open>try\<close> ends in \<^verbatim>\<open>return null\<close>.
\<close>

definition getFromCache :: "loader \<Rightarrow> jsstring \<Rightarrow> world \<Rightarrow> data option \<times> world" where
  "getFromCache l key w =
     (if \<not> cacheEnabled l then (None, w)
      else if storageMode w = Blocked then (None, w)
      else
        case localStorage w (storageKey l key) of
          None \<Rightarrow> (None, w)
        | Some Unparsable \<Rightarrow> (None, w)
        | Some (Envelope d timestamp) \<Rightarrow>
            if clock w - timestamp > cacheDuration l
            then (None,
              w\<lparr> localStorage := (localStorage w)(storageKey l key := None),
                 effects := effects w @ [RemoveItem (storageKey l key)] \<rparr>)
            else (Some d, w))"

definition saveToCache :: "loader \<Rightarrow> jsstring \<Rightarrow> data \<Rightarrow> world \<Rightarrow> world" where
  "saveToCache l key d w =
     (if \<not> cacheEnabled l then w
      else if storageMode w = Blocked then w
      else if storageMode w = Full
        then w\<lparr> effects := effects w @ [SetItem (storageKey l key)] \<rparr>
      else
        w\<lparr> localStorage := (localStorage w)(storageKey l key \<mapsto> Envelope d (clock w)),
           effects := effects w @ [SetItem (storageKey l key)] \<rparr>)"

section \<open>Requests\<close>

text \<open>\<^verbatim>\<open>response.ok\<close>: the status is in the range 200 to 299.\<close>

definition ok :: "response \<Rightarrow> bool" where
  "ok r \<longleftrightarrow> 200 \<le> status r \<and> status r \<le> 299"

text \<open>\<^verbatim>\<open>await fetch(url)\<close>: the call is logged, and the answer arrives when the time it took has passed.\<close>

definition fetch :: "platform \<Rightarrow> jsstring \<Rightarrow> world \<Rightarrow> fetch_result \<times> world" where
  "fetch P url w =
     (case network P url of
        (elapsed, result) \<Rightarrow>
          (result, w\<lparr> clock := clock w + int elapsed, effects := effects w @ [Fetch url] \<rparr>))"

definition httpError :: "response \<Rightarrow> js_error" where
  "httpError r = Error (utf16 ''HTTP '' @ decimal (status r))"

section \<open>Loading the manifest\<close>

text \<open>
  \<open>loadConfig\<close> returns \<open>Inl\<close> of what it throws or \<open>Inr ()\<close>, the instance and the world.
  Its \<^verbatim>\<open>catch\<close> logs the error and throws it again.
\<close>

definition configKey :: "loader \<Rightarrow> jsstring" where
  "configKey l = utf16 ''course_config_'' @ courseId l"

definition configUrl :: "loader \<Rightarrow> int \<Rightarrow> jsstring" where
  "configUrl l now =
     baseUrl l @ utf16 ''/courses/'' @ courseId l @ utf16 ''/config.json?t='' @ showInt now"

definition loadConfig :: "platform \<Rightarrow> loader \<Rightarrow> world \<Rightarrow> (js_error + unit) \<times> loader \<times> world" where
  "loadConfig P l w =
     (let cacheKey = configKey l;
          (cached, w1) = getFromCache l cacheKey w
      in
        if truthy cached then (Inr (), l\<lparr> config := cached \<rparr>, w1)
        else
          let url = configUrl l (clock w1)
          in
            case fetch P url w1 of
              (Rejected e, w2) \<Rightarrow> (Inl e, l, w2)
            | (Resolved r, w2) \<Rightarrow>
                if \<not> ok r then (Inl (httpError r), l, w2)
                else
                  case bodyJson r of
                    Inl e \<Rightarrow> (Inl e, l, w2)
                  | Inr c \<Rightarrow>
                      (Inr (), l\<lparr> config := Some (Manifest c) \<rparr>,
                       saveToCache l cacheKey (Manifest c) w2))"

section \<open>Fetching a chapter and its exercise\<close>

text \<open>
  \<^verbatim>\<open>fileMapping[chapter.id]\<close>: a look-up in an object literal finds the ten keys of the
  literal and, through its prototype, the members every object inherits.
\<close>

definition fileMappingTable :: "(jsstring \<times> jsstring) list" where
  "fileMappingTable =
     [(utf16 ''1.0'', utf16 ''seite1.0_baumax_app.html''),
      (utf16 ''1.1'', utf16 ''seite1.1_fliesenrechner.html''),
      (utf16 ''1.2'', utf16 ''seite1.2_digitaler_helfer.html''),
      (utf16 ''1.3'', utf16 ''seite1.3_baumax_premium.html''),
      (utf16 ''1.4'', utf16 ''seite1.4_vollstaendiges_kundenprofil.html''),
      (utf16 ''1.5'', utf16 ''seite1.5_checkliste_warenversand.html''),
      (utf16 ''1.6'', utf16 ''seite1.6_mehrwertsteuer.html''),
      (utf16 ''1.7'', utf16 ''seite1.7_speicheroptimierung.html''),
      (utf16 ''1.8'', utf16 ''seite1.8_verpackungs_rechner.html''),
      (utf16 ''1.9'', utf16 ''seite1.9_zugangs_check.html'')]"

definition objectPrototype :: "jsstring list" where
  "objectPrototype =
     [utf16 ''constructor'', utf16 ''hasOwnProperty'', utf16 ''isPrototypeOf'',
      utf16 ''propertyIsEnumerable'', utf16 ''toLocaleString'', utf16 ''toString'',
      utf16 ''valueOf'', utf16 ''__defineGetter__'', utf16 ''__defineSetter__'',
      utf16 ''__lookupGetter__'', utf16 ''__lookupSetter__'', utf16 ''__proto__'']"

datatype property = Undefined | Own jsstring | Inherited jsstring

definition fileMapping :: "jsstring \<Rightarrow> property" where
  "fileMapping k =
     (case map_of fileMappingTable k of
        Some fileName \<Rightarrow> Own fileName
      | None \<Rightarrow> if k \<in> set objectPrototype then Inherited k else Undefined)"

text \<open>\<^verbatim>\<open>!fileName\<close>: nothing was found, or an empty file name.\<close>

fun missing :: "property \<Rightarrow> bool" where
  "missing Undefined = True"
| "missing (Own fileName) = (fileName = [])"
| "missing (Inherited k) = False"

text \<open>The text a template literal gives for the value found.\<close>

fun propertyText :: "platform \<Rightarrow> property \<Rightarrow> jsstring" where
  "propertyText P Undefined = utf16 ''undefined''"
| "propertyText P (Own fileName) = fileName"
| "propertyText P (Inherited k) = inheritedText P k"

definition chapterError :: "jsstring \<Rightarrow> jsstring" where
  \<open>chapterError msg =
     utf16 ''<div class="error"><strong>Fehler:</strong> Kapitel konnte nicht geladen werden ('' @
     msg @
     utf16 '')</div>''\<close>

definition chapterKey :: "loader \<Rightarrow> Chapter \<Rightarrow> jsstring" where
  "chapterKey l ch = utf16 ''chapter_'' @ courseId l @ utf16 ''_'' @ chapterId ch"

definition chapterUrl :: "platform \<Rightarrow> loader \<Rightarrow> Chapter \<Rightarrow> int \<Rightarrow> jsstring" where
  "chapterUrl P l ch now =
     baseUrl l @ utf16 ''/github_content/'' @ propertyText P (fileMapping (chapterId ch)) @
     utf16 ''?t='' @ showInt now"

definition unmappedMessage :: "Chapter \<Rightarrow> jsstring" where
  "unmappedMessage ch =
     utf16 ''Keine Datei f'' @
     [0x00FC] @
     utf16 ''r Kapitel '' @
     chapterId ch @
     utf16 '' definiert''"

text \<open>The \<^verbatim>\<open>try\<close> block of \<open>fetchChapterContent\<close>: \<open>Inl\<close> is what it throws.\<close>

definition fetchChapterTry ::
    "platform \<Rightarrow> loader \<Rightarrow> Chapter \<Rightarrow> jsstring \<Rightarrow> world \<Rightarrow> (js_error + data) \<times> world" where
  "fetchChapterTry P l ch cacheKey w =
     (let fileName = fileMapping (chapterId ch) in
      if missing fileName
      then (Inl (Error (unmappedMessage ch)), w)
      else
        let fullUrl = chapterUrl P l ch (clock w)
        in
          case fetch P fullUrl w of
            (Rejected e, w2) \<Rightarrow> (Inl e, w2)
          | (Resolved r, w2) \<Rightarrow>
              if \<not> ok r then (Inl (httpError r), w2)
              else
                case bodyText r of
                  Inl e \<Rightarrow> (Inl e, w2)
                | Inr html \<Rightarrow>
                    let content = extractContent l html
                    in (Inr (Text content), saveToCache l cacheKey (Text content) w2))"

text \<open>
  \<open>fetchChapterContent\<close> and \<open>fetchExerciseContent\<close> return \<open>Inl\<close> of what they throw or
  \<open>Inr\<close> of their result, and the world.
\<close>

definition fetchChapterContent ::
    "platform \<Rightarrow> loader \<Rightarrow> Chapter \<Rightarrow> world \<Rightarrow> (js_error + data) \<times> world" where
  "fetchChapterContent P l ch w =
     (let cacheKey = chapterKey l ch;
          (cached, w1) = getFromCache l cacheKey w
      in
        case (if truthy cached then cached else None) of
          Some d \<Rightarrow> (Inr d, w1)
        | None \<Rightarrow>
            (case fetchChapterTry P l ch cacheKey w1 of
               (Inr content, w2) \<Rightarrow> (Inr content, w2)
             | (Inl error, w2) \<Rightarrow> (Inr (Text (chapterError (message error))), w2)))"

text \<open>\<^verbatim>\<open>!chapter.exercise\<close>: the chapter has no exercise, or an empty one.\<close>

definition noExercise :: "Chapter \<Rightarrow> bool" where
  "noExercise ch \<longleftrightarrow> (case exercise ch of None \<Rightarrow> True | Some e \<Rightarrow> e = [])"

definition exerciseKey :: "loader \<Rightarrow> Chapter \<Rightarrow> jsstring" where
  "exerciseKey l ch = utf16 ''exercise_'' @ courseId l @ utf16 ''_'' @ chapterId ch"

definition exerciseUrl :: "loader \<Rightarrow> jsstring \<Rightarrow> int \<Rightarrow> jsstring" where
  "exerciseUrl l exerciseFile now =
     baseUrl l @ utf16 ''/github_content/'' @ exerciseFile @ utf16 ''?t='' @ showInt now"

definition fetchExerciseTry ::
    "platform \<Rightarrow> loader \<Rightarrow> jsstring \<Rightarrow> jsstring \<Rightarrow> world \<Rightarrow> (js_error + data) \<times> world" where
  "fetchExerciseTry P l exerciseFile cacheKey w =
     (let url = exerciseUrl l exerciseFile (clock w)
      in
        case fetch P url w of
          (Rejected e, w2) \<Rightarrow> (Inl e, w2)
        | (Resolved r, w2) \<Rightarrow>
            if ok r then
              (case bodyText r of
                 Inl e \<Rightarrow> (Inl e, w2)
               | Inr html \<Rightarrow>
                   let content = extractContent l html
                   in (Inr (Text content), saveToCache l cacheKey (Text content) w2))
            else (Inr (Text []), w2))"

definition fetchExerciseContent ::
    "platform \<Rightarrow> loader \<Rightarrow> Chapter \<Rightarrow> world \<Rightarrow> (js_error + data) \<times> world" where
  "fetchExerciseContent P l ch w =
     (case exercise ch of
        None \<Rightarrow> (Inr (Text []), w)
      | Some exerciseFile \<Rightarrow>
          if exerciseFile = [] then (Inr (Text []), w)
          else
            let cacheKey = exerciseKey l ch;
                (cached, w1) = getFromCache l cacheKey w
            in
              case (if truthy cached then cached else None) of
                Some d \<Rightarrow> (Inr d, w1)
              | None \<Rightarrow>
                  (case fetchExerciseTry P l exerciseFile cacheKey w1 of
                     (Inr content, w2) \<Rightarrow> (Inr content, w2)
                   | (Inl error, w2) \<Rightarrow> (Inr (Text []), w2)))"

section \<open>Rendering and initialisation\<close>

definition headerHtml :: "jsstring \<Rightarrow> jsstring \<Rightarrow> jsstring \<Rightarrow> jsstring \<Rightarrow> jsstring" where
  \<open>headerHtml name descr ver inst =
     utf16 ''\<newline>'' @
     utf16 ''      <h2 style="color: #005691; margin: 0 0 0.5rem 0;">'' @
     name @
     utf16 ''</h2>\<newline>'' @
     utf16 ''      <p style="margin: 0; color: #666; font-size: 0.9em;">'' @
     descr @
     utf16 ''</p>\<newline>'' @
     utf16 ''      <small style="color: #999;">v'' @
     ver @
     utf16 '' '' @
     [0x2022] @
     utf16 '' '' @
     inst @
     utf16 ''</small>\<newline>'' @
     utf16 ''    ''\<close>

definition placeholder :: "jsstring" where
  \<open>placeholder =
     utf16 ''<div style="padding: 2rem; text-align: center; color: #999;">W'' @
     [0x00E4] @
     utf16 ''hle ein Kapitel aus</div>''\<close>

definition errorPanel :: "jsstring \<Rightarrow> jsstring" where
  \<open>errorPanel msg =
     utf16 ''\<newline>'' @
     utf16 ''        <div class="error" style="\<newline>'' @
     utf16 ''          border: 2px solid #f44336;\<newline>'' @
     utf16 ''          background-color: #ffebee;\<newline>'' @
     utf16 ''          padding: 1.5rem;\<newline>'' @
     utf16 ''          color: #c62828;\<newline>'' @
     utf16 ''          border-radius: 8px;\<newline>'' @
     utf16 ''          margin: 2rem 0;\<newline>'' @
     utf16 ''        ">\<newline>'' @
     utf16 ''          <strong>'' @
     [0x26A0, 0xFE0F] @
     utf16 '' Fehler</strong>\<newline>'' @
     utf16 ''          <p>'' @
     msg @
     utf16 ''</p>\<newline>'' @
     utf16 ''          <button onclick="location.reload()" style="\<newline>'' @
     utf16 ''            background: #f44336;\<newline>'' @
     utf16 ''            color: white;\<newline>'' @
     utf16 ''            border: none;\<newline>'' @
     utf16 ''            padding: 0.5rem 1rem;\<newline>'' @
     utf16 ''            border-radius: 4px;\<newline>'' @
     utf16 ''            cursor: pointer;\<newline>'' @
     utf16 ''          ">Neu laden</button>\<newline>'' @
     utf16 ''        </div>\<newline>'' @
     utf16 ''      ''\<close>

text \<open>
  \<^verbatim>\<open>document.getElementById('chapter_content')\<close> finds the first element with the id in the
  order of the document. \<open>showError\<close> writes the panel into that element, if the page has
  one.
\<close>

definition showError :: "jsstring \<Rightarrow> world \<Rightarrow> world" where
  "showError msg w =
     (let d = document w in
      w\<lparr> document :=
           (if contentAhead d \<noteq> None then d\<lparr> contentAhead := Some (errorPanel msg) \<rparr>
            else if contentColumn d \<noteq> None then d\<lparr> contentColumn := Some (errorPanel msg) \<rparr>
            else if contentBehind d \<noteq> None then d\<lparr> contentBehind := Some (errorPanel msg) \<rparr>
            else d) \<rparr>)"

text \<open>
  \<open>renderUI\<close> returns what it throws, if anything, and the world. It appends the header,
  then the grid with the table of contents and the content column, which gets the id
  \<^verbatim>\<open>chapter_content\<close> and the placeholder; a content column appended by an earlier call
  stands before it and stays the first one, and the elements of the page before and behind
  the container stay as they are. A \<open>config\<close> that is \<^verbatim>\<open>null\<close> has no \<^verbatim>\<open>courseName\<close> to
  read; one that is a text has \<^verbatim>\<open>undefined\<close> in the place of every field, and no
  \<^verbatim>\<open>chapters\<close> to run through. The layout for narrow windows and the click handlers leave
  the model's page as it is.
\<close>

definition renderUI :: "platform \<Rightarrow> loader \<Rightarrow> world \<Rightarrow> js_error option \<times> world" where
  "renderUI P l w =
     (if \<not> containerFound (document w) then (None, w)
      else
        case config l of
          None \<Rightarrow>
            (Some (Error (utf16 ''Cannot read properties of null (reading '' @ [0x27] @
               utf16 ''courseName'' @ [0x27] @ utf16 '')'')), w)
        | Some (Text s) \<Rightarrow>
            (Some (Error (utf16 ''Cannot read properties of undefined (reading '' @ [0x27] @
               utf16 ''forEach'' @ [0x27] @ utf16 '')'')),
             w\<lparr> document := (document w)
                  \<lparr> courseHeader := Some (headerHtml (utf16 ''undefined'') (utf16 ''undefined'')
                       (utf16 ''undefined'') (utf16 ''undefined'')) \<rparr> \<rparr>)
        | Some (Manifest c) \<Rightarrow>
            (None,
             w\<lparr> document := (document w)
                  \<lparr> courseHeader := Some (headerHtml (courseName c) (description c) (version c)
                       (institution c)),
                    tocColumn := Some (renderTableOfContents P c),
                    contentColumn :=
                      (case contentColumn (document w) of
                         None \<Rightarrow> Some placeholder
                       | Some h \<Rightarrow> Some h) \<rparr> \<rparr>))"

text \<open>\<open>init\<close> returns the instance and the world; it throws nothing.\<close>

definition initError :: jsstring where
  "initError = utf16 ''Fehler beim Laden der Kurskonfiguration''"

definition init :: "platform \<Rightarrow> loader \<Rightarrow> world \<Rightarrow> loader \<times> world" where
  "init P l w =
     (case loadConfig P l w of
        (Inl error, l1, w1) \<Rightarrow> (l1, showError initError w1)
      | (Inr u, l1, w1) \<Rightarrow>
          (case renderUI P l1 w1 of
             (None, w2) \<Rightarrow> (l1, w2)
           | (Some error, w2) \<Rightarrow> (l1, showError initError w2)))"

section \<open>Notions the properties are stated with\<close>

text \<open>
  The number of places of a string at which a pattern stands (occurrences that overlap are
  all counted).
\<close>

fun occurrences :: "'a list \<Rightarrow> 'a list \<Rightarrow> nat" where
  "occurrences pat [] = (if pat = [] then 1 else 0)"
| "occurrences pat (x # xs) = (if prefix pat (x # xs) then 1 else 0) + occurrences pat xs"

text \<open>
  What the specification calls the integer of a duration: the value of its first run of
  digits, zero when it has none.
\<close>

definition durationMinutes :: "Chapter \<Rightarrow> nat" where
  "durationMinutes ch =
     (case matchDigits (duration ch) of None \<Rightarrow> 0 | Some m \<Rightarrow> decimalValue m)"

text \<open>The writes to the storage and the requests among the calls logged.\<close>

fun isSetItem :: "effect \<Rightarrow> bool" where
  "isSetItem (SetItem k) = True"
| "isSetItem e = False"

fun isFetch :: "effect \<Rightarrow> bool" where
  "isFetch (Fetch url) = True"
| "isFetch e = False"

text \<open>
  A request for a text fails: the network rejects it, the status is outside 200 to 299, or
  the body cannot be read.
\<close>

fun failed :: "fetch_result \<Rightarrow> bool" where
  "failed (Rejected e) = True"
| "failed (Resolved r) = (\<not> ok r \<or> isl (bodyText r))"

text \<open>
  The occurrences of a pattern that start inside the first of two adjacent pieces of a
  string, and \<^verbatim>\<open>Array.prototype.join\<close>.
\<close>

fun hits :: "'a list \<Rightarrow> 'a list \<Rightarrow> 'a list \<Rightarrow> nat" where
  "hits pat [] s = 0"
| "hits pat (x # a) s = (if prefix pat (x # a @ s) then 1 else 0) + hits pat a s"

fun joinParts :: "'a list list \<Rightarrow> 'a list \<Rightarrow> 'a list" where
  "joinParts [] sep = []"
| "joinParts [p] sep = p"
| "joinParts (p # q # ps) sep = p @ sep @ joinParts (q # ps) sep"

text \<open>
  The entries of a table of contents, as the click handlers of \<open>attachEventListeners\<close> meet
  them: the links of the class \<^verbatim>\<open>toc-link\<close>, each with the chapter id it loads in its
  attribute \<^verbatim>\<open>data-chapter-id\<close>. \<open>dataChapterIds\<close> reads them from the markup: every place
  at which the opening of such a link stands, as the template writes it, with the text of the
  attribute up to the closing quotation mark (\<open>0x22\<close>), in the order of the markup.
\<close>

definition linkOpen :: jsstring where
  \<open>linkOpen =
     utf16 ''<a href="#" data-chapter-id="''\<close>

fun dataChapterIds :: "jsstring \<Rightarrow> jsstring list" where
  "dataChapterIds [] = []"
| "dataChapterIds (x # xs) =
     (if prefix linkOpen (x # xs)
      then [takeWhile (\<lambda>c. c \<noteq> 0x22) (drop (length linkOpen) (x # xs))]
      else []) @ dataChapterIds xs"

text \<open>
  The fixed text of the template of an entry and of the foot, between the interpolations; and
  a text in which no link opens: no \<^verbatim>\<open><\<close> is followed by an \<^verbatim>\<open>a\<close>, and none stands at
  its end.
\<close>

definition entryLead :: jsstring where
  \<open>entryLead =
     utf16 ''\<newline>'' @
     utf16 ''        <li style="margin-bottom: 0.5rem;">\<newline>'' @
     utf16 ''          ''\<close>

definition entryStyle :: jsstring where
  \<open>entryStyle =
     utf16 '' class="toc-link" style="\<newline>'' @
     utf16 ''            display: block;\<newline>'' @
     utf16 ''            padding: 0.5rem;\<newline>'' @
     utf16 ''            border-radius: 4px;\<newline>'' @
     utf16 ''            transition: all 0.3s ease;\<newline>'' @
     utf16 ''            cursor: pointer;\<newline>'' @
     utf16 ''          " onmouseover="this.style.backgroundColor='#e3f2fd'; this.style.paddingLeft='1rem';" \<newline>'' @
     utf16 ''             onmouseout="this.style.backgroundColor='transparent'; this.style.paddingLeft='0.5rem';">\<newline>'' @
     utf16 ''            ''\<close>

definition entrySmall :: jsstring where
  \<open>entrySmall =
     utf16 ''\<newline>'' @
     utf16 ''            <small style="display: block; color: #999; font-size: 0.8em; margin-top: 0.25rem;">\<newline>'' @
     utf16 ''              '' @
     [0x23F1, 0xFE0F] @
     utf16 '' ''\<close>

definition entryTail :: jsstring where
  \<open>entryTail =
     utf16 ''\<newline>'' @
     utf16 ''            </small>\<newline>'' @
     utf16 ''          </a>\<newline>'' @
     utf16 ''        </li>\<newline>'' @
     utf16 ''      ''\<close>

definition footLead :: jsstring where
  \<open>footLead =
     utf16 ''\<newline>'' @
     utf16 ''        </ul>\<newline>'' @
     utf16 ''        <div style="margin-top: 1.5rem; padding-top: 1rem; border-top: 1px solid #ddd; font-size: 0.85em; color: #666;">\<newline>'' @
     utf16 ''          <p style="margin: 0;"><strong>Summe:</strong> ''\<close>

definition footTail :: jsstring where
  \<open>footTail =
     utf16 ''</p>\<newline>'' @
     utf16 ''          <p style="margin: 0.5rem 0 0 0;">\<newline>'' @
     utf16 ''            <button onclick="location.reload()" style="\<newline>'' @
     utf16 ''              background: #005691;\<newline>'' @
     utf16 ''              color: white;\<newline>'' @
     utf16 ''              border: none;\<newline>'' @
     utf16 ''              padding: 0.5rem 1rem;\<newline>'' @
     utf16 ''              border-radius: 4px;\<newline>'' @
     utf16 ''              cursor: pointer;\<newline>'' @
     utf16 ''              font-size: 0.9em;\<newline>'' @
     utf16 ''              width: 100%;\<newline>'' @
     utf16 ''            ">'' @
     [0xD83D, 0xDD04] @
     utf16 '' Cache l'' @
     [0x00F6] @
     utf16 ''schen</button>\<newline>'' @
     utf16 ''          </p>\<newline>'' @
     utf16 ''        </div>\<newline>'' @
     utf16 ''      </nav>\<newline>'' @
     utf16 ''    ''\<close>

fun noAnchor :: "jsstring \<Rightarrow> bool" where
  "noAnchor [] = True"
| "noAnchor [x] = (x \<noteq> 0x3C)"
| "noAnchor (x # y # r) = (\<not> (x = 0x3C \<and> y = 0x61) \<and> noAnchor (y # r))"

section \<open>Example values\<close>

text \<open>
  The text of a number beyond \<open>2 ^ 53\<close>, as \<^verbatim>\<open>Number.prototype.toString\<close> writes it: the
  fewest significant digits (at most 17) that read back as the same double, of the
  candidates with that many digits the one nearest to the number; the digits are followed by
  zeros up to 21 places, and by an exponent beyond that. A sum that has left the range of the
  doubles is \<^verbatim>\<open>Infinity\<close>.
\<close>

definition shortestCandidate :: "nat \<Rightarrow> nat \<Rightarrow> nat option" where
  "shortestCandidate x k =
     (let p = 10 ^ (length (decimal x) - k); lo = (x div p) * p; hi = lo + p in
      if round53 lo = x \<and> round53 hi = x
      then Some (if x - lo < hi - x then lo
                 else if hi - x < x - lo then hi
                 else if even (lo div p) then lo else hi)
      else if round53 lo = x then Some lo
      else if round53 hi = x then Some hi
      else None)"

fun shortestFrom :: "nat \<Rightarrow> nat list \<Rightarrow> nat" where
  "shortestFrom x [] = x"
| "shortestFrom x (k # ks) =
     (case shortestCandidate x k of Some v \<Rightarrow> v | None \<Rightarrow> shortestFrom x ks)"

definition shortestDecimal :: "nat \<Rightarrow> nat" where
  "shortestDecimal x = shortestFrom x [1..<18]"

definition exponential :: "nat \<Rightarrow> jsstring" where
  "exponential v =
     (let n = length (decimal v);
          ds = rev (dropWhile (\<lambda>c. c = 0x30) (rev (decimal v)))
      in if n \<le> 21 then decimal v
         else take 1 ds @ (if 1 < length ds then utf16 ''.'' @ drop 1 ds else []) @
              utf16 ''e+'' @ decimal (n - 1))"

definition shortestText :: "nat \<Rightarrow> jsstring" where
  "shortestText x =
     (if 2 ^ 1024 \<le> x then utf16 ''Infinity'' else exponential (shortestDecimal x))"

text \<open>
  A browser without a network, a page with the container, and a world at time \<open>1000\<close>. The
  members every object inherits are functions of the engine, \<^verbatim>\<open>constructor\<close> the function
  \<^verbatim>\<open>Object\<close>, and \<^verbatim>\<open>__proto__\<close> the prototype object itself.
\<close>

definition offline :: platform where
  "offline =
     \<lparr> network = (\<lambda>url. (0, Rejected (Error (utf16 ''Failed to fetch'')))),
       largeNumberText = shortestText,
       inheritedText = (\<lambda>k.
         if k = utf16 ''__proto__'' then utf16 ''[object Object]''
         else if k = utf16 ''constructor'' then utf16 ''function Object() { [native code] }''
         else utf16 ''function '' @ k @ utf16 ''() { [native code] }'') \<rparr>"

text \<open>A server that answers every request with the same response after 25 milliseconds.\<close>

definition answering :: "response \<Rightarrow> platform" where
  "answering r = offline\<lparr> network := (\<lambda>url. (25, Resolved r)) \<rparr>"

definition htmlResponse :: "nat \<Rightarrow> jsstring \<Rightarrow> response" where
  "htmlResponse code html =
     \<lparr> status = code, bodyText = Inr html,
       bodyJson = Inl (Error (utf16 ''Unexpected token < in JSON at position 0'')) \<rparr>"

definition emptyPage :: page where
  "emptyPage =
     \<lparr> containerFound = True, courseHeader = None, tocColumn = None, contentAhead = None,
       contentColumn = None, contentBehind = None \<rparr>"

definition freshWorld :: world where
  "freshWorld =
     \<lparr> clock = 1000, localStorage = Map.empty, storageMode = Available, effects = [],
       document = emptyPage \<rparr>"

definition noOptions :: options where
  "noOptions =
     \<lparr> optBaseUrl = None, optCourseId = None, optContainer = None, optCacheEnabled = None,
       optCacheDuration = None \<rparr>"


definition exampleChapter :: "jsstring \<Rightarrow> jsstring \<Rightarrow> Chapter" where
  "exampleChapter ident dur =
     \<lparr> chapterId = ident, title = utf16 ''Kapitel'', chapterType = utf16 ''lesson'',
       duration = dur, exercise = None \<rparr>"

definition exampleConfig :: "Chapter list \<Rightarrow> CourseConfig" where
  "exampleConfig chs =
     \<lparr> courseName = utf16 ''BauMax'', description = utf16 ''Situation 1'',
       version = utf16 ''1.0'', institution = utf16 ''Schule'', chapters = chs \<rparr>"

section \<open>Properties of \<open>split\<close> and \<open>extractContent\<close>\<close>

lemma occurrences_append: "occurrences pat (a @ s) = hits pat a s + occurrences pat s"
  by (induction a) auto

lemma hits_border_free:
  "set t \<subseteq> set u \<Longrightarrow> c \<notin> set u \<Longrightarrow> hits (c # u) t r = 0"
  by (induction t) auto

lemma occurrences_step:
  assumes "sep = c # u" "c \<notin> set u" "prefix sep s"
  shows "occurrences sep s = Suc (occurrences sep (drop (length sep) s))"
proof -
  from assms(3) obtain r where s: "s = c # u @ r" by (auto simp: prefix_def assms(1))
  have "occurrences sep s = Suc (occurrences sep (u @ r))"
    using assms(3) by (simp add: s)
  also have "occurrences sep (u @ r) = occurrences sep r"
    using hits_border_free[of u u c r] assms(2) by (simp add: occurrences_append assms(1))
  finally show ?thesis by (simp add: s assms(1))
qed

lemma splitParts_not_Nil: "splitParts sep part s \<noteq> []"
  by (induction sep part s rule: splitParts.induct) auto

lemma splitParts_hit:
  "sep \<noteq> [] \<Longrightarrow> prefix sep (x # xs) \<Longrightarrow>
   splitParts sep part (x # xs) = part # splitParts sep [] (drop (length sep) (x # xs))"
  by simp

lemma splitParts_miss:
  "\<not> (sep \<noteq> [] \<and> prefix sep (x # xs)) \<Longrightarrow>
   splitParts sep part (x # xs) = splitParts sep (part @ [x]) xs"
  by auto

lemma length_splitParts:
  "sep = c # u \<Longrightarrow> c \<notin> set u \<Longrightarrow> length (splitParts sep part s) = Suc (occurrences sep s)"
proof (induction sep part s rule: splitParts.induct)
  case (1 sep part)
  then show ?case by simp
next
  case (2 sep part x xs)
  have ne: "sep \<noteq> []" using "2.prems" by simp
  show ?case
  proof (cases "prefix sep (x # xs)")
    case True
    have "length (splitParts sep [] (drop (length sep) (x # xs))) =
        Suc (occurrences sep (drop (length sep) (x # xs)))"
      using "2.IH"(1) ne True "2.prems" by blast
    moreover have "occurrences sep (x # xs) = Suc (occurrences sep (drop (length sep) (x # xs)))"
      using occurrences_step[OF "2.prems" True] .
    ultimately show ?thesis
      by (simp only: splitParts_hit[OF ne True] list.size length_Cons)
  next
    case False
    have "length (splitParts sep (part @ [x]) xs) = Suc (occurrences sep xs)"
      using "2.IH"(2) False "2.prems" by blast
    moreover have "occurrences sep (x # xs) = occurrences sep xs"
      using False by simp
    moreover have "splitParts sep part (x # xs) = splitParts sep (part @ [x]) xs"
      using False by (intro splitParts_miss) simp
    ultimately show ?thesis by simp
  qed
qed

lemma joinParts_Cons:
  "qs \<noteq> [] \<Longrightarrow> joinParts (p # qs) sep = p @ sep @ joinParts qs sep"
  by (cases qs) auto

lemma joinParts_splitParts: "joinParts (splitParts sep part s) sep = part @ s"
proof (induction sep part s rule: splitParts.induct)
  case (1 sep part)
  then show ?case by simp
next
  case (2 sep part x xs)
  show ?case
  proof (cases "sep \<noteq> [] \<and> prefix sep (x # xs)")
    case True
    then have ne: "sep \<noteq> []" and pre: "prefix sep (x # xs)" by auto
    have "joinParts (splitParts sep [] (drop (length sep) (x # xs))) sep =
        drop (length sep) (x # xs)"
      using "2.IH"(1) True by simp
    moreover have "sep @ drop (length sep) (x # xs) = x # xs"
      using pre by (auto simp: prefix_def)
    ultimately show ?thesis
      by (simp only: splitParts_hit[OF ne pre] joinParts_Cons[OF splitParts_not_Nil])
  next
    case False
    have "joinParts (splitParts sep (part @ [x]) xs) sep = (part @ [x]) @ xs"
      using "2.IH"(2) False by blast
    moreover have "splitParts sep part (x # xs) = splitParts sep (part @ [x]) xs"
      using False by (intro splitParts_miss)
    ultimately show ?thesis by simp
  qed
qed

lemma splitParts_skip:
  "sep \<noteq> [] \<Longrightarrow> hits sep a (sep @ r) = 0 \<Longrightarrow>
   splitParts sep part (a @ sep @ r) = (part @ a) # splitParts sep [] r"
proof (induction a arbitrary: part)
  case Nil
  then show ?case by (cases sep) auto
next
  case (Cons x a)
  then show ?case by (auto split: if_splits)
qed

lemma sentinel_border_free: "\<exists>c u. sentinel = c # u \<and> c \<notin> set u"
  by (simp add: sentinel_def utf16_def)


text \<open>
  C2: when the marker occurs exactly twice in the response body, the body is
  \<open>a @ marker @ b @ marker @ c\<close>, and \<open>extractContent\<close> returns \<open>b\<close>, the text strictly
  between the first and the second occurrence, trimmed of white space at both ends; what
  follows the second occurrence is dropped.
\<close>

theorem extractContent_two_markers:
  assumes m: "marker l = sentinel" and two: "occurrences sentinel html = 2"
  shows "(\<exists>a b c. html = a @ sentinel @ b @ sentinel @ c) \<and>
         (\<forall>a b c. html = a @ sentinel @ b @ sentinel @ c \<longrightarrow> extractContent l html = trim b)"
proof -
  obtain c0 u where cu: "sentinel = c0 # u" "c0 \<notin> set u"
    using sentinel_border_free by blast
  have ne: "sentinel \<noteq> []" using cu(1) by auto
  have len: "length (splitParts sentinel [] html) = 3"
    using length_splitParts[OF cu, of "[]" html] two by simp
  have ex: "\<exists>a b c. html = a @ sentinel @ b @ sentinel @ c"
  proof -
    from len obtain p0 p1 p2 where ps: "splitParts sentinel [] html = [p0, p1, p2]"
      by (auto simp: length_Suc_conv numeral_3_eq_3)
    have "joinParts (splitParts sentinel [] html) sentinel = html"
      using joinParts_splitParts[of sentinel "[]" html] by simp
    then have "html = p0 @ sentinel @ p1 @ sentinel @ p2" by (simp add: ps)
    then show ?thesis by blast
  qed
  have all: "extractContent l html = trim b" if h: "html = a @ sentinel @ b @ sentinel @ c" for a b c
  proof -
    have "occurrences sentinel html =
        hits sentinel a (sentinel @ b @ sentinel @ c) +
        Suc (hits sentinel b (sentinel @ c) + Suc (occurrences sentinel c))"
      using occurrences_step[OF cu, of "sentinel @ b @ sentinel @ c"]
        occurrences_step[OF cu, of "sentinel @ c"]
      by (simp add: h occurrences_append)
    with two have z: "hits sentinel a (sentinel @ b @ sentinel @ c) = 0"
      "hits sentinel b (sentinel @ c) = 0"
      by simp_all
    have "splitParts sentinel [] html = a # b # splitParts sentinel [] c"
      using splitParts_skip[OF ne z(1), of "[]"] splitParts_skip[OF ne z(2), of "[]"]
      by (simp add: h)
    with len show ?thesis
      by (simp add: extractContent_def split_def m ne)
  qed
  from ex all show ?thesis by blast
qed

theorem extractContent_two_markers_witness:
  "marker (CourseLoader [] noOptions) = sentinel \<and>
   occurrences sentinel
     (utf16 ''<html><!-- HIER_STARTET_DER_INHALT -->  <p>Hallo</p>\<newline><!-- HIER_STARTET_DER_INHALT --></html>'') = 2 \<and>
   extractContent (CourseLoader [] noOptions)
     (utf16 ''<html><!-- HIER_STARTET_DER_INHALT -->  <p>Hallo</p>\<newline><!-- HIER_STARTET_DER_INHALT --></html>'')
     = utf16 ''<p>Hallo</p>''"
proof -
  let ?l = "CourseLoader [] noOptions"
  let ?h = "utf16 ''<html><!-- HIER_STARTET_DER_INHALT -->  <p>Hallo</p>\<newline><!-- HIER_STARTET_DER_INHALT --></html>''"
  have h1: "marker ?l = sentinel" by (simp add: CourseLoader_def Let_def)
  have h2: "occurrences sentinel ?h = 2" by code_simp
  have h3: "?h = utf16 ''<html>'' @ sentinel @ utf16 ''  <p>Hallo</p>\<newline>'' @ sentinel @ utf16 ''</html>''"
    by (simp add: sentinel_def utf16_def)
  have h4: "trim (utf16 ''  <p>Hallo</p>\<newline>'') = utf16 ''<p>Hallo</p>''" by code_simp
  from extractContent_two_markers[OF h1 h2] h3 h4 have "extractContent ?l ?h = utf16 ''<p>Hallo</p>''"
    by metis
  with h1 h2 show ?thesis by blast
qed

lemma extractContent_unmarked:
  assumes m: "marker l = sentinel" and few: "occurrences sentinel html \<le> 1"
  shows "extractContent l html = html"
proof -
  obtain c0 u where cu: "sentinel = c0 # u" "c0 \<notin> set u"
    using sentinel_border_free by blast
  have ne: "sentinel \<noteq> []" using cu(1) by auto
  have "length (splitParts sentinel [] html) < 3"
    using length_splitParts[OF cu, of "[]" html] few by simp
  then show ?thesis by (simp add: extractContent_def split_def m ne)
qed

text \<open>
  C3: when the marker occurs at no place or at exactly one place of the response body,
  \<open>extractContent\<close> returns the body as it is, untrimmed.
\<close>

theorem extractContent_fewer_markers:
  assumes m: "marker l = sentinel" and few: "occurrences sentinel html \<le> 1"
  shows "extractContent l html = html"
  using m few by (rule extractContent_unmarked)

theorem extractContent_fewer_markers_witness:
  "marker (CourseLoader [] noOptions) = sentinel \<and>
   occurrences sentinel (utf16 ''  <p>Kopf</p><!-- HIER_STARTET_DER_INHALT --> <p>Hallo</p> '') \<le> 1 \<and>
   extractContent (CourseLoader [] noOptions)
     (utf16 ''  <p>Kopf</p><!-- HIER_STARTET_DER_INHALT --> <p>Hallo</p> '')
     = utf16 ''  <p>Kopf</p><!-- HIER_STARTET_DER_INHALT --> <p>Hallo</p> ''"
proof -
  let ?l = "CourseLoader [] noOptions"
  let ?h = "utf16 ''  <p>Kopf</p><!-- HIER_STARTET_DER_INHALT --> <p>Hallo</p> ''"
  have h1: "marker ?l = sentinel" by (simp add: CourseLoader_def Let_def)
  have h2: "occurrences sentinel ?h \<le> 1" by code_simp
  from extractContent_fewer_markers[OF h1 h2] h1 h2 show ?thesis by blast
qed

section \<open>Properties of the numbers\<close>

declare bitLength.simps [simp del]
declare decimal.simps [simp del]

lemma bitLength_numeral [simp]:
  "bitLength (numeral k) = Suc (bitLength (numeral k div 2))"
  by (subst bitLength.simps) simp

lemma bitLength_small [simp]: "bitLength 0 = 0" "bitLength (Suc 0) = Suc 0"
  by (simp_all add: bitLength.simps[of 0] bitLength.simps[of "Suc 0"])

lemma decimal_numeral [simp]:
  "decimal (numeral k) =
     (if numeral k < (10::nat) then [digit (numeral k)]
      else decimal (numeral k div 10) @ [digit (numeral k mod 10)])"
  by (rule decimal.simps)

lemma decimal_small [simp]: "decimal 0 = [0x30]" "decimal (Suc 0) = [0x31]"
  by (simp_all add: decimal.simps[of 0] decimal.simps[of "Suc 0"] digit_def)

lemma bitLength_le: "n < 2 ^ k \<Longrightarrow> bitLength n \<le> k"
proof (induction k arbitrary: n)
  case 0
  then show ?case by simp
next
  case (Suc k)
  show ?case
  proof (cases "n = 0")
    case True
    then show ?thesis by simp
  next
    case False
    have "n div 2 < 2 ^ k" using Suc.prems by auto
    from Suc.IH[OF this] False show ?thesis by (subst bitLength.simps) simp
  qed
qed

lemma round53_exact_below: "n < 2 ^ 53 \<Longrightarrow> round53 n = n"
  using bitLength_le[of n 53] by (simp add: round53_def Let_def)

lemma round53_pow53: "round53 (2 ^ 53) = 2 ^ 53"
  by (simp add: round53_def Let_def)

lemma round53_exact: "n \<le> 2 ^ 53 \<Longrightarrow> round53 n = n"
  using round53_exact_below[of n] round53_pow53 by (cases "n = 2 ^ 53") auto

lemma addDuration_exact:
  "tot + durationMinutes ch \<le> 2 ^ 53 \<Longrightarrow> addDuration tot ch = tot + durationMinutes ch"
  by (auto simp: addDuration_def durationMinutes_def parseInt_def round53_exact split: option.splits)

lemma foldl_addDuration_exact:
  "tot + sum_list (map durationMinutes chs) \<le> 2 ^ 53 \<Longrightarrow>
   foldl addDuration tot chs = tot + sum_list (map durationMinutes chs)"
proof (induction chs arbitrary: tot)
  case Nil
  then show ?case by simp
next
  case (Cons ch chs)
  have "addDuration tot ch = tot + durationMinutes ch"
    using Cons.prems by (intro addDuration_exact) simp
  moreover have "foldl addDuration (tot + durationMinutes ch) chs =
      tot + durationMinutes ch + sum_list (map durationMinutes chs)"
    using Cons.prems by (intro Cons.IH) (simp add: add.assoc)
  ultimately show ?case by (simp add: add.assoc)
qed

lemma getTotalDuration_exact:
  assumes "sum_list (map durationMinutes (chapters c)) \<le> 2 ^ 53"
  shows "getTotalDuration P c =
    decimal (sum_list (map durationMinutes (chapters c))) @ utf16 '' min''"
  using foldl_addDuration_exact[of 0 "chapters c"] assms
  by (simp add: getTotalDuration_def numberToString_def)

lemma durationMinutes_examples:
  "duration a = utf16 ''10 min'' \<Longrightarrow> durationMinutes a = 10"
  "duration a = utf16 ''5 min'' \<Longrightarrow> durationMinutes a = 5"
  "duration a = utf16 ''abc'' \<Longrightarrow> durationMinutes a = 0"
  by (simp_all add: durationMinutes_def matchDigits_def isDigit_def decimalValue_def utf16_def)

text \<open>
  C6, as amended: \<open>getTotalDuration\<close> returns the digits of \<open>N\<close> followed by \<^verbatim>\<open> min\<close>, where
  \<open>N\<close> is the sum over the chapters of the value of the first run of digits of the duration
  (zero for a duration without a digit), whenever \<open>N\<close> is at most \<open>2 ^ 53\<close>, the range in which
  the number type of the loader holds every integer. The durations \<^verbatim>\<open>10 min\<close>, \<^verbatim>\<open>5 min\<close>, \<^verbatim>\<open>abc\<close>
  give \<^verbatim>\<open>15 min\<close>.
\<close>

theorem getTotalDuration_sum:
  "(sum_list (map durationMinutes (chapters c)) \<le> 2 ^ 53 \<longrightarrow>
      getTotalDuration P c =
        decimal (sum_list (map durationMinutes (chapters c))) @ utf16 '' min'') \<and>
   (map duration (chapters c) = [utf16 ''10 min'', utf16 ''5 min'', utf16 ''abc''] \<longrightarrow>
      getTotalDuration P c = utf16 ''15 min'')"
proof (intro conjI impI)
  assume "sum_list (map durationMinutes (chapters c)) \<le> 2 ^ 53"
  then show "getTotalDuration P c =
      decimal (sum_list (map durationMinutes (chapters c))) @ utf16 '' min''"
    by (rule getTotalDuration_exact)
next
  assume "map duration (chapters c) = [utf16 ''10 min'', utf16 ''5 min'', utf16 ''abc'']"
  then obtain x y z where chs: "chapters c = [x, y, z]"
    and d: "duration x = utf16 ''10 min''" "duration y = utf16 ''5 min''" "duration z = utf16 ''abc''"
    by (auto simp: map_eq_Cons_conv)
  have s: "sum_list (map durationMinutes (chapters c)) = 15"
    by (simp add: chs durationMinutes_examples(1)[OF d(1)] durationMinutes_examples(2)[OF d(2)]
        durationMinutes_examples(3)[OF d(3)])
  have "getTotalDuration P c = decimal 15 @ utf16 '' min''"
    using getTotalDuration_exact[of c P] by (simp add: s)
  then show "getTotalDuration P c = utf16 ''15 min''"
    by (simp add: digit_def utf16_def)
qed

theorem getTotalDuration_sum_witness:
  "sum_list (map durationMinutes (chapters (exampleConfig
      [exampleChapter (utf16 ''1.0'') (utf16 ''10 min''),
       exampleChapter (utf16 ''1.1'') (utf16 ''5 min''),
       exampleChapter (utf16 ''1.2'') (utf16 ''abc'')]))) \<le> 2 ^ 53 \<and>
   map duration (chapters (exampleConfig
      [exampleChapter (utf16 ''1.0'') (utf16 ''10 min''),
       exampleChapter (utf16 ''1.1'') (utf16 ''5 min''),
       exampleChapter (utf16 ''1.2'') (utf16 ''abc'')])) =
     [utf16 ''10 min'', utf16 ''5 min'', utf16 ''abc''] \<and>
   getTotalDuration offline (exampleConfig
      [exampleChapter (utf16 ''1.0'') (utf16 ''10 min''),
       exampleChapter (utf16 ''1.1'') (utf16 ''5 min''),
       exampleChapter (utf16 ''1.2'') (utf16 ''abc'')]) = utf16 ''15 min''"
proof -
  let ?c = "exampleConfig
      [exampleChapter (utf16 ''1.0'') (utf16 ''10 min''),
       exampleChapter (utf16 ''1.1'') (utf16 ''5 min''),
       exampleChapter (utf16 ''1.2'') (utf16 ''abc'')]"
  have h2: "map duration (chapters ?c) = [utf16 ''10 min'', utf16 ''5 min'', utf16 ''abc'']"
    by (simp add: exampleConfig_def exampleChapter_def)
  have h1: "sum_list (map durationMinutes (chapters ?c)) \<le> 2 ^ 53"
    by (simp add: exampleConfig_def exampleChapter_def durationMinutes_examples)
  from getTotalDuration_sum[of ?c offline] h1 h2 show ?thesis by blast
qed

text \<open>
  C6 as stated fails beyond that range: the duration \<^verbatim>\<open>9007199254740993 min\<close> is read as the
  nearest double, \<open>9007199254740992\<close>.
\<close>

theorem getTotalDuration_rounds_large_durations:
  "durationMinutes (exampleChapter (utf16 ''1.0'') (utf16 ''9007199254740993 min'')) =
     9007199254740993 \<and>
   getTotalDuration offline
     (exampleConfig [exampleChapter (utf16 ''1.0'') (utf16 ''9007199254740993 min'')]) =
     utf16 ''9007199254740992 min'' \<and>
   getTotalDuration offline
     (exampleConfig [exampleChapter (utf16 ''1.0'') (utf16 ''9007199254740993 min'')]) \<noteq>
     decimal (sum_list (map durationMinutes (chapters
       (exampleConfig [exampleChapter (utf16 ''1.0'') (utf16 ''9007199254740993 min'')])))) @
     utf16 '' min''"
proof -
  have m: "matchDigits (utf16 ''9007199254740993 min'') = Some (utf16 ''9007199254740993'')"
    by (simp add: matchDigits_def isDigit_def utf16_def)
  have v: "decimalValue (utf16 ''9007199254740993'') = 9007199254740993"
    by (simp add: decimalValue_def utf16_def)
  have r: "round53 9007199254740993 = 9007199254740992"
    by (simp add: round53_def Let_def)
  have d: "durationMinutes (exampleChapter (utf16 ''1.0'') (utf16 ''9007199254740993 min'')) =
     9007199254740993"
    by (simp add: durationMinutes_def exampleChapter_def m v)
  have t: "addDuration 0 (exampleChapter (utf16 ''1.0'') (utf16 ''9007199254740993 min'')) =
      9007199254740992"
    by (simp add: addDuration_def exampleChapter_def m parseInt_def v r round53_exact)
  have "getTotalDuration offline
     (exampleConfig [exampleChapter (utf16 ''1.0'') (utf16 ''9007199254740993 min'')]) =
     numberToString offline 9007199254740992 @ utf16 '' min''"
    by (simp add: getTotalDuration_def exampleConfig_def t)
  also have "\<dots> = utf16 ''9007199254740992 min''"
    by (simp add: numberToString_def digit_def utf16_def)
  finally have g: "getTotalDuration offline
     (exampleConfig [exampleChapter (utf16 ''1.0'') (utf16 ''9007199254740993 min'')]) =
     utf16 ''9007199254740992 min''" .
  have n: "utf16 ''9007199254740992 min'' \<noteq> decimal 9007199254740993 @ utf16 '' min''"
    by (simp add: digit_def utf16_def)
  show ?thesis using d g n by (simp add: exampleConfig_def)
qed

text \<open>
  The text of a number beyond \<open>2 ^ 53\<close> in the example browser: \<open>2 ^ 64\<close> is written with
  the 17 digits that tell it from its neighbours, \<open>2 ^ 70\<close> with an exponent.
\<close>

lemma upt_candidates:
  "[Suc 0..<18] = [1, 2, 3, 4, 5, 6, 7, 8, 9, 10, 11, 12, 13, 14, 15, 16, 17]"
  by (simp add: upt_rec)

lemma shortestDecimal_examples:
  "shortestDecimal 18446744073709551616 = 18446744073709552000"
  "shortestDecimal 1180591620717411303424 = 1180591620717411300000"
  by (simp_all add: shortestDecimal_def shortestCandidate_def upt_candidates Let_def round53_def
      digit_def)

lemma exponential_examples:
  "exponential 18446744073709552000 = utf16 ''18446744073709552000''"
  "exponential 1180591620717411300000 = utf16 ''1.1805916207174113e+21''"
  by (simp_all add: exponential_def Let_def digit_def utf16_def numeral_2_eq_2[symmetric])

lemma largeNumberText_offline:
  "largeNumberText offline 18446744073709551616 = utf16 ''18446744073709552000''"
  "largeNumberText offline 1180591620717411303424 = utf16 ''1.1805916207174113e+21''"
  by (simp_all add: offline_def shortestText_def shortestDecimal_examples exponential_examples)

section \<open>Properties of the table of contents\<close>

lemma foldl_append_entries:
  "foldl (\<lambda>html ch. html @ f ch) acc chs = acc @ concat (map f chs)"
  by (induction chs arbitrary: acc) simp_all

text \<open>The template of an entry and of the foot, in their pieces.\<close>

lemma tocEntry_parts:
  "tocEntry ch =
     entryLead @ linkOpen @ chapterId ch @ 0x22 # entryStyle @ icon ch @ 0x20 # chapterId ch @
     utf16 '': '' @ title ch @ entrySmall @ duration ch @ entryTail"
  by (simp add: tocEntry_def entryLead_def linkOpen_def entryStyle_def entrySmall_def
      entryTail_def utf16_def)

lemma tocFoot_parts: "tocFoot t = footLead @ t @ footTail"
  by (simp add: tocFoot_def footLead_def footTail_def utf16_def)

lemma linkOpen_Cons: "linkOpen = 0x3C # 0x61 # tl (tl linkOpen)"
  by (simp add: linkOpen_def utf16_def)

lemma static_noAnchor:
  "noAnchor entryLead" "noAnchor entryStyle" "noAnchor entrySmall" "noAnchor entryTail"
  "noAnchor tocHead" "noAnchor footLead" "noAnchor footTail" "noAnchor (tl linkOpen)"
  by (simp_all add: entryLead_def entryStyle_def entrySmall_def entryTail_def tocHead_def
      footLead_def footTail_def linkOpen_def utf16_def)

lemma prefix_linkOpen_1: "prefix linkOpen (x # t) \<Longrightarrow> x = 0x3C"
  by (subst (asm) linkOpen_Cons) simp

lemma prefix_linkOpen_2: "prefix linkOpen (x # y # t) \<Longrightarrow> x = 0x3C \<and> y = 0x61"
  by (subst (asm) linkOpen_Cons) simp

lemma noAnchor_plain: "0x3C \<notin> set s \<Longrightarrow> noAnchor s"
  by (induction s rule: noAnchor.induct) auto

lemma noAnchor_append: "noAnchor s \<Longrightarrow> noAnchor t \<Longrightarrow> noAnchor (s @ t)"
proof (induction s rule: noAnchor.induct)
  case 1
  then show ?case by simp
next
  case (2 x)
  then show ?case by (cases t) auto
next
  case (3 x y r)
  then show ?case by simp
qed

lemma noAnchor_Cons: "x \<noteq> 0x3C \<Longrightarrow> noAnchor t \<Longrightarrow> noAnchor (x # t)"
  by (cases t) auto

lemma dataChapterIds_skip: "noAnchor s \<Longrightarrow> dataChapterIds (s @ r) = dataChapterIds r"
proof (induction s rule: noAnchor.induct)
  case 1
  then show ?case by simp
next
  case (2 x)
  then have "\<not> prefix linkOpen (x # r)" using prefix_linkOpen_1 by auto
  then show ?case by simp
next
  case (3 x y t)
  then have "\<not> prefix linkOpen (x # y # t @ r)" using prefix_linkOpen_2 by auto
  with 3 show ?case by simp
qed

lemma dataChapterIds_skip_all: "noAnchor s \<Longrightarrow> dataChapterIds s = []"
  using dataChapterIds_skip[of s "[]"] by simp

lemma dataChapterIds_link:
  assumes "0x22 \<notin> set i" "0x3C \<notin> set i"
  shows "dataChapterIds (linkOpen @ i @ 0x22 # r) = i # dataChapterIds r"
proof -
  have c: "linkOpen @ i @ 0x22 # r = 0x3C # (tl linkOpen @ i @ 0x22 # r)"
    by (subst linkOpen_Cons) (simp add: linkOpen_def utf16_def)
  have p: "prefix linkOpen (0x3C # (tl linkOpen @ i @ 0x22 # r))"
    unfolding c[symmetric] by simp
  have d: "drop (length linkOpen) (0x3C # (tl linkOpen @ i @ 0x22 # r)) = i @ 0x22 # r"
    unfolding c[symmetric] by simp
  have t: "takeWhile (\<lambda>c. c \<noteq> 0x22) (i @ 0x22 # r) = i"
    using assms(1) by (induction i) auto
  have "noAnchor (tl linkOpen @ i @ [0x22])"
    by (intro noAnchor_append static_noAnchor noAnchor_plain assms) simp
  then have k: "dataChapterIds (tl linkOpen @ i @ 0x22 # r) = dataChapterIds r"
    using dataChapterIds_skip[of "tl linkOpen @ i @ [0x22]" r] by simp
  show ?thesis
    unfolding c by (simp only: dataChapterIds.simps p d t k if_True append.simps)
qed

lemma noAnchor_icon: "noAnchor (icon ch)"
  by (simp add: icon_def)

lemma dataChapterIds_entry_title:
  assumes "0x22 \<notin> set (chapterId ch)" "0x3C \<notin> set (chapterId ch)"
  shows "dataChapterIds (tocEntry ch @ r) =
    chapterId ch # dataChapterIds (title ch @ entrySmall @ duration ch @ entryTail @ r)"
proof -
  have mid: "noAnchor (entryStyle @ icon ch @ 0x20 # chapterId ch @ utf16 '': '')"
    by (intro noAnchor_append noAnchor_Cons static_noAnchor noAnchor_icon noAnchor_plain assms)
      (simp_all add: utf16_def)
  have "dataChapterIds (tocEntry ch @ r) =
      dataChapterIds (linkOpen @ chapterId ch @ 0x22 #
        ((entryStyle @ icon ch @ 0x20 # chapterId ch @ utf16 '': '') @
         title ch @ entrySmall @ duration ch @ entryTail @ r))"
    using dataChapterIds_skip[OF static_noAnchor(1)] by (simp add: tocEntry_parts)
  also have "\<dots> = chapterId ch # dataChapterIds
        ((entryStyle @ icon ch @ 0x20 # chapterId ch @ utf16 '': '') @
         title ch @ entrySmall @ duration ch @ entryTail @ r)"
    by (rule dataChapterIds_link[OF assms])
  also have "\<dots> = chapterId ch #
      dataChapterIds (title ch @ entrySmall @ duration ch @ entryTail @ r)"
    by (simp only: dataChapterIds_skip[OF mid])
  finally show ?thesis .
qed

lemma dataChapterIds_entry:
  assumes "0x22 \<notin> set (chapterId ch)" "0x3C \<notin> set (chapterId ch)"
    "0x3C \<notin> set (title ch)" "0x3C \<notin> set (duration ch)"
  shows "dataChapterIds (tocEntry ch @ r) = chapterId ch # dataChapterIds r"
proof -
  have "noAnchor (title ch @ entrySmall @ duration ch @ entryTail)"
    by (intro noAnchor_append static_noAnchor noAnchor_plain assms)
  then have "dataChapterIds (title ch @ entrySmall @ duration ch @ entryTail @ r) =
      dataChapterIds r"
    using dataChapterIds_skip[of "title ch @ entrySmall @ duration ch @ entryTail" r] by simp
  then show ?thesis by (simp add: dataChapterIds_entry_title[OF assms(1,2)])
qed

lemma dataChapterIds_entries:
  assumes "\<forall>ch \<in> set chs. 0x3C \<notin> set (chapterId ch) \<and> 0x22 \<notin> set (chapterId ch) \<and>
      0x3C \<notin> set (title ch) \<and> 0x3C \<notin> set (duration ch)"
  shows "dataChapterIds (concat (map tocEntry chs) @ r) = map chapterId chs @ dataChapterIds r"
  using assms by (induction chs) (simp_all add: dataChapterIds_entry)

lemma renderTableOfContents_concat:
  "renderTableOfContents P c =
     tocHead @ concat (map tocEntry (chapters c)) @ tocFoot (getTotalDuration P c)"
  by (simp add: renderTableOfContents_def foldl_append_entries)

lemma dataChapterIds_foot:
  "0x3C \<notin> set t \<Longrightarrow> dataChapterIds (tocFoot t) = []"
  unfolding tocFoot_parts
  by (intro dataChapterIds_skip_all noAnchor_append static_noAnchor noAnchor_plain)

text \<open>
  C9, as amended: when no chapter id, title or duration of the manifest holds a \<^verbatim>\<open><\<close>, no
  chapter id holds a quotation mark, and the text of the total holds no \<^verbatim>\<open><\<close> (no engine
  writes a number with one), the links of the table of contents carry the chapter ids of the
  manifest, one link for each chapter, in the order of the manifest; for the chapters
  \<^verbatim>\<open>1.0\<close> and \<^verbatim>\<open>1.1\<close> the link of \<^verbatim>\<open>1.0\<close> stands before the link of \<^verbatim>\<open>1.1\<close>.
\<close>

theorem renderTableOfContents_lists_chapters:
  assumes fields: "\<forall>ch \<in> set (chapters c).
      0x3C \<notin> set (chapterId ch) \<and> 0x22 \<notin> set (chapterId ch) \<and>
      0x3C \<notin> set (title ch) \<and> 0x3C \<notin> set (duration ch)"
    and total: "0x3C \<notin> set (getTotalDuration P c)"
  shows "dataChapterIds (renderTableOfContents P c) = map chapterId (chapters c) \<and>
         length (dataChapterIds (renderTableOfContents P c)) = length (chapters c) \<and>
         (map chapterId (chapters c) = [utf16 ''1.0'', utf16 ''1.1''] \<longrightarrow>
            dataChapterIds (renderTableOfContents P c) = [utf16 ''1.0'', utf16 ''1.1''])"
proof -
  have "dataChapterIds (renderTableOfContents P c) =
      dataChapterIds (concat (map tocEntry (chapters c)) @ tocFoot (getTotalDuration P c))"
    unfolding renderTableOfContents_concat by (rule dataChapterIds_skip[OF static_noAnchor(5)])
  also have "\<dots> = map chapterId (chapters c) @ dataChapterIds (tocFoot (getTotalDuration P c))"
    by (rule dataChapterIds_entries[OF fields])
  also have "\<dots> = map chapterId (chapters c)"
    by (simp add: dataChapterIds_foot[OF total])
  finally have "dataChapterIds (renderTableOfContents P c) = map chapterId (chapters c)" .
  then show ?thesis by simp
qed

lemma exampleChapter_minutes:
  "durationMinutes (exampleChapter i (utf16 ''10 min'')) = 10"
  "durationMinutes (exampleChapter i (utf16 ''5 min'')) = 5"
  by (simp_all add: exampleChapter_def durationMinutes_examples)

theorem renderTableOfContents_lists_chapters_witness:
  "getTotalDuration offline (exampleConfig
      [exampleChapter (utf16 ''1.0'') (utf16 ''10 min''),
       exampleChapter (utf16 ''1.1'') (utf16 ''5 min'')]) = utf16 ''15 min'' \<and>
   map chapterId (chapters (exampleConfig
      [exampleChapter (utf16 ''1.0'') (utf16 ''10 min''),
       exampleChapter (utf16 ''1.1'') (utf16 ''5 min'')])) = [utf16 ''1.0'', utf16 ''1.1''] \<and>
   dataChapterIds (renderTableOfContents offline (exampleConfig
      [exampleChapter (utf16 ''1.0'') (utf16 ''10 min''),
       exampleChapter (utf16 ''1.1'') (utf16 ''5 min'')])) = [utf16 ''1.0'', utf16 ''1.1''] \<and>
   length (dataChapterIds (renderTableOfContents offline (exampleConfig
      [exampleChapter (utf16 ''1.0'') (utf16 ''10 min''),
       exampleChapter (utf16 ''1.1'') (utf16 ''5 min'')]))) = 2"
proof -
  let ?c = "exampleConfig
      [exampleChapter (utf16 ''1.0'') (utf16 ''10 min''),
       exampleChapter (utf16 ''1.1'') (utf16 ''5 min'')]"
  have ids: "map chapterId (chapters ?c) = [utf16 ''1.0'', utf16 ''1.1'']"
    by (simp add: exampleConfig_def exampleChapter_def)
  have fields: "\<forall>ch \<in> set (chapters ?c).
      0x3C \<notin> set (chapterId ch) \<and> 0x22 \<notin> set (chapterId ch) \<and>
      0x3C \<notin> set (title ch) \<and> 0x3C \<notin> set (duration ch)"
    by (simp add: exampleConfig_def exampleChapter_def utf16_def)
  have "getTotalDuration offline ?c = decimal 15 @ utf16 '' min''"
    using getTotalDuration_exact[of ?c offline]
    by (simp add: exampleConfig_def exampleChapter_minutes)
  then have t: "getTotalDuration offline ?c = utf16 ''15 min''"
    by (simp add: digit_def utf16_def)
  have total: "0x3C \<notin> set (getTotalDuration offline ?c)"
    unfolding t by (simp add: utf16_def)
  from renderTableOfContents_lists_chapters[OF fields total] ids t
  show ?thesis by simp
qed

text \<open>
  C9 as stated fails for a manifest whose fields hold markup, which the template
  interpolates as it is: a single chapter whose title closes its link and opens another one
  gives a table of contents with two links, the second for a chapter id the manifest does not
  have.
\<close>

theorem renderTableOfContents_injected_entry:
  \<open>length (chapters (exampleConfig
      [(exampleChapter (utf16 ''1.0'') (utf16 ''10 min''))
         \<lparr> title := utf16 ''</a></li><li style="margin-bottom: 0.5rem;"><a href="#" data-chapter-id="9.9" class="toc-link">Zusatz'' \<rparr>])) = 1 \<and>
   dataChapterIds (renderTableOfContents offline (exampleConfig
      [(exampleChapter (utf16 ''1.0'') (utf16 ''10 min''))
         \<lparr> title := utf16 ''</a></li><li style="margin-bottom: 0.5rem;"><a href="#" data-chapter-id="9.9" class="toc-link">Zusatz'' \<rparr>])) =
     [utf16 ''1.0'', utf16 ''9.9''] \<and>
   length (dataChapterIds (renderTableOfContents offline (exampleConfig
      [(exampleChapter (utf16 ''1.0'') (utf16 ''10 min''))
         \<lparr> title := utf16 ''</a></li><li style="margin-bottom: 0.5rem;"><a href="#" data-chapter-id="9.9" class="toc-link">Zusatz'' \<rparr>]))) = 2\<close>
proof -
  let ?t1 = \<open>utf16 ''</a></li><li style="margin-bottom: 0.5rem;">''\<close>
  let ?t2 = \<open>utf16 '' class="toc-link">Zusatz''\<close>
  let ?title = \<open>utf16 ''</a></li><li style="margin-bottom: 0.5rem;"><a href="#" data-chapter-id="9.9" class="toc-link">Zusatz''\<close>
  let ?ch = "(exampleChapter (utf16 ''1.0'') (utf16 ''10 min''))\<lparr> title := ?title \<rparr>"
  let ?c = "exampleConfig [?ch]"
  have split_title: "?title = ?t1 @ linkOpen @ utf16 ''9.9'' @ 0x22 # ?t2"
    by (simp add: linkOpen_def utf16_def)
  have n1: "noAnchor ?t1" and n2: "noAnchor ?t2"
    by (simp_all add: utf16_def)
  have id: "chapterId ?ch = utf16 ''1.0''" and du: "duration ?ch = utf16 ''10 min''"
    and ti: "title ?ch = ?title"
    by (simp_all add: exampleChapter_def)
  have q: "0x22 \<notin> set (utf16 ''1.0'')" "0x3C \<notin> set (utf16 ''1.0'')"
    "0x22 \<notin> set (utf16 ''9.9'')" "0x3C \<notin> set (utf16 ''9.9'')"
    "0x3C \<notin> set (utf16 ''10 min'')"
    by (simp_all add: utf16_def)
  have q1: "0x22 \<notin> set (chapterId ?ch)" "0x3C \<notin> set (chapterId ?ch)"
    unfolding id by (rule q)+
  have "durationMinutes ?ch = 10"
    by (simp add: durationMinutes_examples(1) du)
  then have "getTotalDuration offline ?c = decimal 10 @ utf16 '' min''"
    using getTotalDuration_exact[of ?c offline] by (simp add: exampleConfig_def)
  then have total: "0x3C \<notin> set (getTotalDuration offline ?c)"
    by (simp add: digit_def utf16_def)
  have rest: "noAnchor (?t2 @ entrySmall @ utf16 ''10 min'' @ entryTail)"
    by (intro noAnchor_append static_noAnchor noAnchor_plain n2 q)
  have "dataChapterIds (renderTableOfContents offline ?c) =
      dataChapterIds (tocEntry ?ch @ tocFoot (getTotalDuration offline ?c))"
    unfolding renderTableOfContents_concat
    using dataChapterIds_skip[OF static_noAnchor(5)] by (simp add: exampleConfig_def)
  also have "\<dots> = utf16 ''1.0'' # dataChapterIds
      (?title @ entrySmall @ utf16 ''10 min'' @ entryTail @ tocFoot (getTotalDuration offline ?c))"
    using dataChapterIds_entry_title[OF q1, of "tocFoot (getTotalDuration offline ?c)"]
    by (simp only: id du ti)
  also have "dataChapterIds
      (?title @ entrySmall @ utf16 ''10 min'' @ entryTail @ tocFoot (getTotalDuration offline ?c)) =
      dataChapterIds (linkOpen @ utf16 ''9.9'' @ 0x22 #
        ((?t2 @ entrySmall @ utf16 ''10 min'' @ entryTail) @
         tocFoot (getTotalDuration offline ?c)))"
    unfolding split_title using dataChapterIds_skip[OF n1] by simp
  also have "\<dots> = utf16 ''9.9'' # dataChapterIds
        ((?t2 @ entrySmall @ utf16 ''10 min'' @ entryTail) @
         tocFoot (getTotalDuration offline ?c))"
    by (rule dataChapterIds_link[OF q(3,4)])
  also have "dataChapterIds
        ((?t2 @ entrySmall @ utf16 ''10 min'' @ entryTail) @
         tocFoot (getTotalDuration offline ?c)) = []"
    by (simp only: dataChapterIds_skip[OF rest] dataChapterIds_foot[OF total])
  finally have r: "dataChapterIds (renderTableOfContents offline ?c) =
      [utf16 ''1.0'', utf16 ''9.9'']" .
  show ?thesis by (simp add: r) (simp add: exampleConfig_def)
qed

section \<open>Properties of the cache\<close>

lemma getFromCache_hit_world:
  "fst (getFromCache l key w) = Some d \<Longrightarrow> snd (getFromCache l key w) = w"
  by (auto simp: getFromCache_def split: if_splits option.splits item.splits)

lemma getFromCache_storageMode:
  "storageMode (snd (getFromCache l key w)) = storageMode w"
  by (auto simp: getFromCache_def split: if_splits option.splits item.splits)

lemma getFromCache_document:
  "document (snd (getFromCache l key w)) = document w"
  by (auto simp: getFromCache_def split: if_splits option.splits item.splits)

lemma getFromCache_setItems:
  "filter isSetItem (effects (snd (getFromCache l key w))) = filter isSetItem (effects w)"
  by (auto simp: getFromCache_def split: if_splits option.splits item.splits)

lemma getFromCache_miss_stable:
  assumes "\<not> truthy (fst (getFromCache l key w))"
    and "localStorage w' = localStorage (snd (getFromCache l key w))"
    and "storageMode w' = storageMode w"
  shows "\<not> truthy (fst (getFromCache l key w'))"
  using assms
  by (auto simp: getFromCache_def split: if_splits option.splits item.splits)

text \<open>
  C1: with the cache enabled and the storage taking the write, an entry that \<open>saveToCache\<close>
  wrote at time \<open>T\<close> under the duration \<open>D\<close>, and that is still the item stored under its key,
  is returned by \<open>getFromCache\<close> at every time strictly before \<open>T + D\<close>; at every time strictly
  after \<open>T + D\<close>, \<open>getFromCache\<close> returns \<^verbatim>\<open>null\<close> and the item is gone from the storage.
\<close>

theorem cache_entry_lives_for_ttl:
  assumes on: "cacheEnabled l" and avail: "storageMode w0 = Available"
    and kept: "localStorage w (storageKey l key) =
        localStorage (saveToCache l key d w0) (storageKey l key)"
    and readable: "storageMode w \<noteq> Blocked"
  shows "(clock w < clock w0 + cacheDuration l \<longrightarrow> getFromCache l key w = (Some d, w)) \<and>
         (clock w > clock w0 + cacheDuration l \<longrightarrow>
            fst (getFromCache l key w) = None \<and>
            localStorage (snd (getFromCache l key w)) (storageKey l key) = None)"
proof -
  have "localStorage w (storageKey l key) = Some (Envelope d (clock w0))"
    using on avail by (simp add: kept saveToCache_def)
  then show ?thesis using on readable by (simp add: getFromCache_def)
qed

theorem cache_entry_lives_for_ttl_witness:
  "cacheEnabled (CourseLoader [] noOptions) \<and>
   cacheDuration (CourseLoader [] noOptions) = 3600000 \<and>
   clock freshWorld = 1000 \<and>
   storageMode freshWorld = Available \<and>
   getFromCache (CourseLoader [] noOptions) (utf16 ''chapter_situation_1_1.0'')
     ((saveToCache (CourseLoader [] noOptions) (utf16 ''chapter_situation_1_1.0'')
        (Text (utf16 ''<p>Hallo</p>'')) freshWorld)\<lparr> clock := 3600999 \<rparr>) =
     (Some (Text (utf16 ''<p>Hallo</p>'')),
      (saveToCache (CourseLoader [] noOptions) (utf16 ''chapter_situation_1_1.0'')
        (Text (utf16 ''<p>Hallo</p>'')) freshWorld)\<lparr> clock := 3600999 \<rparr>) \<and>
   fst (getFromCache (CourseLoader [] noOptions) (utf16 ''chapter_situation_1_1.0'')
     ((saveToCache (CourseLoader [] noOptions) (utf16 ''chapter_situation_1_1.0'')
        (Text (utf16 ''<p>Hallo</p>'')) freshWorld)\<lparr> clock := 3601001 \<rparr>)) = None \<and>
   localStorage (snd (getFromCache (CourseLoader [] noOptions) (utf16 ''chapter_situation_1_1.0'')
     ((saveToCache (CourseLoader [] noOptions) (utf16 ''chapter_situation_1_1.0'')
        (Text (utf16 ''<p>Hallo</p>'')) freshWorld)\<lparr> clock := 3601001 \<rparr>)))
     (storageKey (CourseLoader [] noOptions) (utf16 ''chapter_situation_1_1.0'')) = None"
proof -
  let ?l = "CourseLoader [] noOptions"
  let ?k = "utf16 ''chapter_situation_1_1.0''"
  let ?d = "Text (utf16 ''<p>Hallo</p>'')"
  let ?w1 = "saveToCache ?l ?k ?d freshWorld"
  have on: "cacheEnabled ?l" and dur: "cacheDuration ?l = 3600000"
    by (simp_all add: CourseLoader_def Let_def noOptions_def orNumber_def)
  have avail: "storageMode freshWorld = Available" and t0: "clock freshWorld = 1000"
    by (simp_all add: freshWorld_def)
  have mode: "storageMode ?w1 = Available"
    using on avail by (simp add: saveToCache_def)
  have early: "getFromCache ?l ?k (?w1\<lparr> clock := 3600999 \<rparr>) =
      (Some ?d, ?w1\<lparr> clock := 3600999 \<rparr>)"
    using cache_entry_lives_for_ttl[OF on avail, of "?w1\<lparr> clock := 3600999 \<rparr>" ?k ?d]
    by (simp add: mode dur t0)
  have late: "fst (getFromCache ?l ?k (?w1\<lparr> clock := 3601001 \<rparr>)) = None \<and>
      localStorage (snd (getFromCache ?l ?k (?w1\<lparr> clock := 3601001 \<rparr>))) (storageKey ?l ?k) = None"
    using cache_entry_lives_for_ttl[OF on avail, of "?w1\<lparr> clock := 3601001 \<rparr>" ?k ?d]
    by (simp add: mode dur t0)
  from on dur t0 avail early late show ?thesis by simp
qed


section \<open>Properties of \<open>loadConfig\<close> and \<open>init\<close>\<close>

text \<open>
  C5: when the look-up of \<^verbatim>\<open>course_config_{courseId}\<close> hits (the test \<^verbatim>\<open>if (cached)\<close>, which
  every manifest passes), \<open>loadConfig\<close> makes the cached value the \<open>config\<close> of the instance and
  returns; the world is as before, so no request has been made.
\<close>

theorem loadConfig_cache_hit:
  assumes hit: "truthy (fst (getFromCache l (configKey l) w))"
  shows "loadConfig P l w =
           (Inr (), l\<lparr> config := fst (getFromCache l (configKey l) w) \<rparr>, w) \<and>
         filter isFetch (effects (snd (snd (loadConfig P l w)))) = filter isFetch (effects w)"
proof -
  obtain cached w1 where g: "getFromCache l (configKey l) w = (cached, w1)"
    by (cases "getFromCache l (configKey l) w")
  from hit g obtain d where "cached = Some d" by (cases cached) auto
  with g have "w1 = w" using getFromCache_hit_world[of l "configKey l" w d] by simp
  with hit g show ?thesis by (simp add: loadConfig_def)
qed

theorem loadConfig_cache_hit_witness:
  "truthy (fst (getFromCache (CourseLoader [] noOptions) (configKey (CourseLoader [] noOptions))
     (saveToCache (CourseLoader [] noOptions) (configKey (CourseLoader [] noOptions))
        (Manifest (exampleConfig [])) freshWorld))) \<and>
   loadConfig (answering (htmlResponse 200 [])) (CourseLoader [] noOptions)
     (saveToCache (CourseLoader [] noOptions) (configKey (CourseLoader [] noOptions))
        (Manifest (exampleConfig [])) freshWorld) =
     (Inr (), (CourseLoader [] noOptions)\<lparr> config := Some (Manifest (exampleConfig [])) \<rparr>,
      saveToCache (CourseLoader [] noOptions) (configKey (CourseLoader [] noOptions))
        (Manifest (exampleConfig [])) freshWorld)"
proof -
  let ?l = "CourseLoader [] noOptions"
  let ?w = "saveToCache ?l (configKey ?l) (Manifest (exampleConfig [])) freshWorld"
  have g: "fst (getFromCache ?l (configKey ?l) ?w) = Some (Manifest (exampleConfig []))"
    by (simp add: getFromCache_def saveToCache_def CourseLoader_def Let_def noOptions_def
        orNumber_def freshWorld_def)
  then have hit: "truthy (fst (getFromCache ?l (configKey ?l) ?w))" by simp
  from loadConfig_cache_hit[OF hit, of "answering (htmlResponse 200 [])"] g hit
  show ?thesis by simp
qed

text \<open>
  C7: when the cache misses and the answer to the request for \<^verbatim>\<open>config.json\<close> has a status
  outside 200 to 299, \<open>loadConfig\<close> throws an error whose message is \<^verbatim>\<open>HTTP\<close> and the status,
  and the \<open>config\<close> of the instance is as before. \<open>init\<close> catches the error, calls
  \<open>showError\<close> and renders nothing: the header and the table of contents of the page are as
  before.
\<close>

theorem loadConfig_http_error:
  assumes miss: "\<not> truthy (fst (getFromCache l (configKey l) w))"
    and w1: "w1 = snd (getFromCache l (configKey l) w)"
    and net: "network P (configUrl l (clock w1)) = (elapsed, Resolved r)"
    and bad: "\<not> ok r"
  shows "loadConfig P l w =
           (Inl (Error (utf16 ''HTTP '' @ decimal (status r))), l,
            w1\<lparr> clock := clock w1 + int elapsed,
                effects := effects w1 @ [Fetch (configUrl l (clock w1))] \<rparr>) \<and>
         init P l w =
           (l, showError initError
                 (w1\<lparr> clock := clock w1 + int elapsed,
                     effects := effects w1 @ [Fetch (configUrl l (clock w1))] \<rparr>)) \<and>
         config (fst (init P l w)) = config l \<and>
         courseHeader (document (snd (init P l w))) = courseHeader (document w) \<and>
         tocColumn (document (snd (init P l w))) = tocColumn (document w)"
proof -
  obtain cached where g: "getFromCache l (configKey l) w = (cached, w1)"
    using w1 by (cases "getFromCache l (configKey l) w") simp
  have lc: "loadConfig P l w =
           (Inl (Error (utf16 ''HTTP '' @ decimal (status r))), l,
            w1\<lparr> clock := clock w1 + int elapsed,
                effects := effects w1 @ [Fetch (configUrl l (clock w1))] \<rparr>)"
    using miss g net bad by (simp add: loadConfig_def fetch_def httpError_def)
  have doc: "document w1 = document w"
    using getFromCache_document[of l "configKey l" w] w1 by simp
  show ?thesis by (simp add: lc init_def showError_def Let_def doc)
qed

theorem loadConfig_http_error_witness:
  "\<not> truthy (fst (getFromCache (CourseLoader [] noOptions) (configKey (CourseLoader [] noOptions))
     freshWorld)) \<and>
   network (answering (htmlResponse 404 (utf16 ''Not Found'')))
     (configUrl (CourseLoader [] noOptions) 1000) =
     (25, Resolved (htmlResponse 404 (utf16 ''Not Found''))) \<and>
   \<not> ok (htmlResponse 404 (utf16 ''Not Found'')) \<and>
   fst (loadConfig (answering (htmlResponse 404 (utf16 ''Not Found''))) (CourseLoader [] noOptions)
     freshWorld) = Inl (Error (utf16 ''HTTP 404'')) \<and>
   config (fst (init (answering (htmlResponse 404 (utf16 ''Not Found''))) (CourseLoader [] noOptions)
     freshWorld)) = None \<and>
   tocColumn (document (snd (init (answering (htmlResponse 404 (utf16 ''Not Found'')))
     (CourseLoader [] noOptions) freshWorld))) = None"
proof -
  let ?l = "CourseLoader [] noOptions"
  let ?r = "htmlResponse 404 (utf16 ''Not Found'')"
  have g: "getFromCache ?l (configKey ?l) freshWorld = (None, freshWorld)"
    by (simp add: getFromCache_def freshWorld_def)
  have miss: "\<not> truthy (fst (getFromCache ?l (configKey ?l) freshWorld))"
    by (simp add: g)
  have w1: "freshWorld = snd (getFromCache ?l (configKey ?l) freshWorld)"
    by (simp add: g)
  have t: "clock freshWorld = 1000" by (simp add: freshWorld_def)
  have net: "network (answering ?r) (configUrl ?l (clock freshWorld)) = (25, Resolved ?r)"
    by (simp add: answering_def)
  have bad: "\<not> ok ?r" by (simp add: ok_def htmlResponse_def)
  have st: "utf16 ''HTTP '' @ decimal (status ?r) = utf16 ''HTTP 404''"
    by (simp add: htmlResponse_def digit_def utf16_def)
  have c0: "config ?l = None" by (simp add: CourseLoader_def Let_def)
  have d0: "tocColumn (document freshWorld) = None" by (simp add: freshWorld_def emptyPage_def)
  from loadConfig_http_error[OF miss w1 net bad] miss net bad st c0 d0 t
  show ?thesis by (simp add: showError_def Let_def)
qed


text \<open>
  On a page that has an element with the id \<^verbatim>\<open>chapter_content\<close> only behind the container,
  \<open>renderUI\<close> puts the content column before it, and a later \<open>showError\<close> writes into the
  column, not into the older element.
\<close>

lemma showError_after_renderUI:
  assumes "containerFound (document w)" "config l = Some (Manifest c)"
    and "contentAhead (document w) = None" "contentColumn (document w) = None"
    and "contentBehind (document w) = Some old"
  shows "fst (renderUI P l w) = None"
    and "contentColumn (document (snd (renderUI P l w))) = Some placeholder"
    and "contentColumn (document (showError msg (snd (renderUI P l w)))) = Some (errorPanel msg)"
    and "contentBehind (document (showError msg (snd (renderUI P l w)))) = Some old"
  using assms by (simp_all add: renderUI_def showError_def Let_def)

text \<open>Without the column, \<open>showError\<close> writes into the element behind the container.\<close>

lemma showError_without_column:
  assumes "contentAhead (document w) = None" "contentColumn (document w) = None"
    and "contentBehind (document w) = Some old"
  shows "contentBehind (document (showError msg w)) = Some (errorPanel msg)"
  using assms by (simp add: showError_def Let_def)

section \<open>Properties of the chapter and exercise requests\<close>

lemma fetch_network:
  "network P url = (elapsed, result) \<Longrightarrow>
   fetch P url w = (result, w\<lparr> clock := clock w + int elapsed, effects := effects w @ [Fetch url] \<rparr>)"
  by (simp add: fetch_def)

lemma fileNames_not_empty: "(k, f) \<in> set fileMappingTable \<Longrightarrow> f \<noteq> []"
  by (auto simp: fileMappingTable_def utf16_def)

lemma missing_fileMapping: "missing (fileMapping k) \<longleftrightarrow> fileMapping k = Undefined"
  by (auto simp: fileMapping_def split: option.splits dest!: map_of_SomeD fileNames_not_empty)

lemma fetchChapterTry_throws:
  assumes "fileMapping (chapterId ch) = Undefined \<or> failed (snd (network P (chapterUrl P l ch (clock w))))"
  shows "\<exists>e w2. fetchChapterTry P l ch key w = (Inl e, w2) \<and>
           localStorage w2 = localStorage w \<and> storageMode w2 = storageMode w \<and>
           filter isSetItem (effects w2) = filter isSetItem (effects w)"
proof (cases "fileMapping (chapterId ch) = Undefined")
  case True
  then show ?thesis by (simp add: fetchChapterTry_def missing_fileMapping)
next
  case False
  with assms have f: "failed (snd (network P (chapterUrl P l ch (clock w))))" by simp
  obtain elapsed result where n: "network P (chapterUrl P l ch (clock w)) = (elapsed, result)"
    by (cases "network P (chapterUrl P l ch (clock w))")
  from f n have "failed result" by simp
  then show ?thesis
    using False fetch_network[OF n, of w]
    by (cases result) (auto simp: fetchChapterTry_def Let_def missing_fileMapping split: sum.splits)
qed

lemma fetchExerciseTry_fails:
  assumes "failed (snd (network P (exerciseUrl l f (clock w))))"
  shows "\<exists>res w2. fetchExerciseTry P l f key w = (res, w2) \<and>
           (res = Inr (Text []) \<or> isl res) \<and>
           localStorage w2 = localStorage w \<and> storageMode w2 = storageMode w \<and>
           filter isSetItem (effects w2) = filter isSetItem (effects w)"
proof -
  obtain elapsed result where n: "network P (exerciseUrl l f (clock w)) = (elapsed, result)"
    by (cases "network P (exerciseUrl l f (clock w))")
  from assms n have "failed result" by simp
  then show ?thesis
    using fetch_network[OF n, of w]
    by (cases result) (auto simp: fetchExerciseTry_def Let_def split: sum.splits)
qed

lemma fetchExerciseContent_returns: "\<exists>d. fst (fetchExerciseContent P l ch w) = Inr d"
  by (auto simp: fetchExerciseContent_def Let_def split: prod.splits option.splits sum.splits if_splits)


lemma fetchExerciseContent_miss:
  assumes "exercise ch = Some f" "f \<noteq> []"
    and "getFromCache l (exerciseKey l ch) w = (cached, w1)" "\<not> truthy cached"
    and "fetchExerciseTry P l f (exerciseKey l ch) w1 = (res, w2)"
  shows "fetchExerciseContent P l ch w =
    ((case res of Inr content \<Rightarrow> Inr content | Inl error \<Rightarrow> Inr (Text [])), w2)"
  using assms by (cases res) (simp_all add: fetchExerciseContent_def)

lemma fetchChapterContent_miss:
  assumes "getFromCache l (chapterKey l ch) w = (cached, w1)" "\<not> truthy cached"
    and "fetchChapterTry P l ch (chapterKey l ch) w1 = (res, w2)"
  shows "fetchChapterContent P l ch w =
    ((case res of Inr content \<Rightarrow> Inr content
      | Inl error \<Rightarrow> Inr (Text (chapterError (message error)))), w2)"
  using assms by (cases res) (simp_all add: fetchChapterContent_def)

lemma cache_miss_cases:
  assumes "\<not> truthy (fst (getFromCache l key w))" "w1 = snd (getFromCache l key w)"
  obtains cached where "getFromCache l key w = (cached, w1)" "\<not> truthy cached"
    "storageMode w1 = storageMode w"
    "filter isSetItem (effects w1) = filter isSetItem (effects w)"
    "\<And>w'. localStorage w' = localStorage w1 \<Longrightarrow> storageMode w' = storageMode w1 \<Longrightarrow>
        \<not> truthy (fst (getFromCache l key w'))"
proof -
  have 1: "getFromCache l key w = (fst (getFromCache l key w), w1)"
    by (simp add: assms(2))
  have 2: "storageMode w1 = storageMode w"
    unfolding assms(2) by (rule getFromCache_storageMode)
  have 3: "filter isSetItem (effects w1) = filter isSetItem (effects w)"
    unfolding assms(2) by (rule getFromCache_setItems)
  have 4: "\<not> truthy (fst (getFromCache l key w'))"
    if "localStorage w' = localStorage w1" "storageMode w' = storageMode w1" for w'
  proof (rule getFromCache_miss_stable[OF assms(1)])
    show "localStorage w' = localStorage (snd (getFromCache l key w))"
      using that(1) unfolding assms(2) .
    show "storageMode w' = storageMode w"
      using that(2) 2 by (rule trans)
  qed
  from that[OF 1 assms(1) 2 3 4] show thesis .
qed

text \<open>
  C8: \<open>fetchExerciseContent\<close> never throws. For a chapter without an exercise it returns the
  empty string and leaves the world as it is (no look-up, no request). For a chapter with an
  exercise and a cache miss, it returns the empty string when the request fails (network
  error, status outside 200 to 299, unreadable body), and the extracted content of the body
  when the request succeeds.
\<close>

theorem fetchExerciseContent_soft:
  "(noExercise ch \<longrightarrow> fetchExerciseContent P l ch w = (Inr (Text []), w)) \<and>
   (\<exists>d. fst (fetchExerciseContent P l ch w) = Inr d) \<and>
   (\<forall>f w1 result.
      exercise ch = Some f \<and> f \<noteq> [] \<and>
      \<not> truthy (fst (getFromCache l (exerciseKey l ch) w)) \<and>
      w1 = snd (getFromCache l (exerciseKey l ch) w) \<and>
      result = snd (network P (exerciseUrl l f (clock w1))) \<longrightarrow>
        (failed result \<longrightarrow> fst (fetchExerciseContent P l ch w) = Inr (Text [])) \<and>
        (\<forall>r html. result = Resolved r \<and> ok r \<and> bodyText r = Inr html \<longrightarrow>
           fst (fetchExerciseContent P l ch w) = Inr (Text (extractContent l html))))"
proof (intro conjI allI impI)
  assume "noExercise ch"
  then show "fetchExerciseContent P l ch w = (Inr (Text []), w)"
    by (auto simp: noExercise_def fetchExerciseContent_def split: option.splits)
next
  show "\<exists>d. fst (fetchExerciseContent P l ch w) = Inr d"
    by (rule fetchExerciseContent_returns)
next
  fix f w1 result
  assume a: "exercise ch = Some f \<and> f \<noteq> [] \<and>
      \<not> truthy (fst (getFromCache l (exerciseKey l ch) w)) \<and>
      w1 = snd (getFromCache l (exerciseKey l ch) w) \<and>
      result = snd (network P (exerciseUrl l f (clock w1)))"
  assume f: "failed result"
  from a have ex: "exercise ch = Some f" "f \<noteq> []"
    and miss: "\<not> truthy (fst (getFromCache l (exerciseKey l ch) w))"
    and w1: "w1 = snd (getFromCache l (exerciseKey l ch) w)"
    and res: "result = snd (network P (exerciseUrl l f (clock w1)))"
    by blast+
  from miss w1 obtain cached where g: "getFromCache l (exerciseKey l ch) w = (cached, w1)"
    "\<not> truthy cached"
    by (rule cache_miss_cases) blast
  from fetchExerciseTry_fails[of P l f w1 "exerciseKey l ch"] f res
  obtain r w2 where t: "fetchExerciseTry P l f (exerciseKey l ch) w1 = (r, w2)"
    "r = Inr (Text []) \<or> isl r" by blast
  show "fst (fetchExerciseContent P l ch w) = Inr (Text [])"
    using t(2) by (cases r) (simp_all add: fetchExerciseContent_miss[OF ex g t(1)])
next
  fix f w1 result r html
  assume a: "exercise ch = Some f \<and> f \<noteq> [] \<and>
      \<not> truthy (fst (getFromCache l (exerciseKey l ch) w)) \<and>
      w1 = snd (getFromCache l (exerciseKey l ch) w) \<and>
      result = snd (network P (exerciseUrl l f (clock w1)))"
  assume b: "result = Resolved r \<and> ok r \<and> bodyText r = Inr html"
  from a have ex: "exercise ch = Some f" "f \<noteq> []"
    and miss: "\<not> truthy (fst (getFromCache l (exerciseKey l ch) w))"
    and w1: "w1 = snd (getFromCache l (exerciseKey l ch) w)"
    and res: "result = snd (network P (exerciseUrl l f (clock w1)))"
    by blast+
  from miss w1 obtain cached where g: "getFromCache l (exerciseKey l ch) w = (cached, w1)"
    "\<not> truthy cached"
    by (rule cache_miss_cases) blast
  obtain elapsed where n: "network P (exerciseUrl l f (clock w1)) = (elapsed, Resolved r)"
    using res b by (cases "network P (exerciseUrl l f (clock w1))") simp
  obtain w2 where t: "fetchExerciseTry P l f (exerciseKey l ch) w1 =
      (Inr (Text (extractContent l html)), w2)"
    using b by (simp add: fetchExerciseTry_def Let_def fetch_network[OF n])
  show "fst (fetchExerciseContent P l ch w) = Inr (Text (extractContent l html))"
    by (simp add: fetchExerciseContent_miss[OF ex g t])
qed

text \<open>
  C10: on every path of \<open>fetchChapterContent\<close> and \<open>fetchExerciseContent\<close> that ends in a
  failure (no file found for the id of the chapter, network error, status outside 200 to
  299, unreadable body), the error fragment or the empty string is returned, the storage is
  what the look-up at the start left, no \<^verbatim>\<open>setItem\<close> has been called, and the next look-up of
  the key misses again, so that a later call makes a new request.
\<close>

theorem failures_are_not_cached:
  "(\<forall>w1.
      \<not> truthy (fst (getFromCache l (chapterKey l ch) w)) \<and>
      w1 = snd (getFromCache l (chapterKey l ch) w) \<and>
      (fileMapping (chapterId ch) = Undefined \<or>
       failed (snd (network P (chapterUrl P l ch (clock w1))))) \<longrightarrow>
        (\<exists>msg. fst (fetchChapterContent P l ch w) = Inr (Text (chapterError msg))) \<and>
        localStorage (snd (fetchChapterContent P l ch w)) = localStorage w1 \<and>
        filter isSetItem (effects (snd (fetchChapterContent P l ch w))) =
          filter isSetItem (effects w) \<and>
        \<not> truthy (fst (getFromCache l (chapterKey l ch) (snd (fetchChapterContent P l ch w))))) \<and>
   (\<forall>f w1.
      exercise ch = Some f \<and> f \<noteq> [] \<and>
      \<not> truthy (fst (getFromCache l (exerciseKey l ch) w)) \<and>
      w1 = snd (getFromCache l (exerciseKey l ch) w) \<and>
      failed (snd (network P (exerciseUrl l f (clock w1)))) \<longrightarrow>
        fst (fetchExerciseContent P l ch w) = Inr (Text []) \<and>
        localStorage (snd (fetchExerciseContent P l ch w)) = localStorage w1 \<and>
        filter isSetItem (effects (snd (fetchExerciseContent P l ch w))) =
          filter isSetItem (effects w) \<and>
        \<not> truthy (fst (getFromCache l (exerciseKey l ch) (snd (fetchExerciseContent P l ch w)))))"
proof -
  have forChapter:
    "(\<exists>msg. fst (fetchChapterContent P l ch w) = Inr (Text (chapterError msg))) \<and>
     localStorage (snd (fetchChapterContent P l ch w)) = localStorage w1 \<and>
     filter isSetItem (effects (snd (fetchChapterContent P l ch w))) =
       filter isSetItem (effects w) \<and>
     \<not> truthy (fst (getFromCache l (chapterKey l ch) (snd (fetchChapterContent P l ch w))))"
    if miss: "\<not> truthy (fst (getFromCache l (chapterKey l ch) w))"
      and w1: "w1 = snd (getFromCache l (chapterKey l ch) w)"
      and fails: "fileMapping (chapterId ch) = Undefined \<or>
        failed (snd (network P (chapterUrl P l ch (clock w1))))"
    for w1
  proof -
    from miss w1 obtain cached where g: "getFromCache l (chapterKey l ch) w = (cached, w1)"
      "\<not> truthy cached"
      and fx1: "filter isSetItem (effects w1) = filter isSetItem (effects w)"
      and stable: "\<And>w'. localStorage w' = localStorage w1 \<Longrightarrow> storageMode w' = storageMode w1 \<Longrightarrow>
          \<not> truthy (fst (getFromCache l (chapterKey l ch) w'))"
      by (rule cache_miss_cases) blast
    from fetchChapterTry_throws[OF fails, of "chapterKey l ch"]
    obtain e w2 where t: "fetchChapterTry P l ch (chapterKey l ch) w1 = (Inl e, w2)"
      and st: "localStorage w2 = localStorage w1" "storageMode w2 = storageMode w1"
      and fx: "filter isSetItem (effects w2) = filter isSetItem (effects w1)"
      by blast
    have r: "fetchChapterContent P l ch w = (Inr (Text (chapterError (message e))), w2)"
      by (simp add: fetchChapterContent_miss[OF g t])
    show ?thesis
      using st(1) fx fx1 stable[OF st] by (auto simp: r)
  qed
  have forExercise:
    "fst (fetchExerciseContent P l ch w) = Inr (Text []) \<and>
     localStorage (snd (fetchExerciseContent P l ch w)) = localStorage w1 \<and>
     filter isSetItem (effects (snd (fetchExerciseContent P l ch w))) =
       filter isSetItem (effects w) \<and>
     \<not> truthy (fst (getFromCache l (exerciseKey l ch) (snd (fetchExerciseContent P l ch w))))"
    if ex: "exercise ch = Some f" "f \<noteq> []"
      and miss: "\<not> truthy (fst (getFromCache l (exerciseKey l ch) w))"
      and w1: "w1 = snd (getFromCache l (exerciseKey l ch) w)"
      and fails: "failed (snd (network P (exerciseUrl l f (clock w1))))"
    for f w1
  proof -
    from miss w1 obtain cached where g: "getFromCache l (exerciseKey l ch) w = (cached, w1)"
      "\<not> truthy cached"
      and fx1: "filter isSetItem (effects w1) = filter isSetItem (effects w)"
      and stable: "\<And>w'. localStorage w' = localStorage w1 \<Longrightarrow> storageMode w' = storageMode w1 \<Longrightarrow>
          \<not> truthy (fst (getFromCache l (exerciseKey l ch) w'))"
      by (rule cache_miss_cases) blast
    from fetchExerciseTry_fails[OF fails, of "exerciseKey l ch"]
    obtain res w2 where t: "fetchExerciseTry P l f (exerciseKey l ch) w1 = (res, w2)"
      and rs: "res = Inr (Text []) \<or> isl res"
      and st: "localStorage w2 = localStorage w1" "storageMode w2 = storageMode w1"
      and fx: "filter isSetItem (effects w2) = filter isSetItem (effects w1)"
      by blast
    have r: "fetchExerciseContent P l ch w = (Inr (Text []), w2)"
      using rs by (cases res) (simp_all add: fetchExerciseContent_miss[OF ex g t])
    show ?thesis
      using st(1) fx fx1 stable[OF st] by (auto simp: r)
  qed
  show ?thesis
  proof (intro conjI allI impI)
    fix w1
    assume "\<not> truthy (fst (getFromCache l (chapterKey l ch) w)) \<and>
      w1 = snd (getFromCache l (chapterKey l ch) w) \<and>
      (fileMapping (chapterId ch) = Undefined \<or>
       failed (snd (network P (chapterUrl P l ch (clock w1)))))"
    then have *: "\<not> truthy (fst (getFromCache l (chapterKey l ch) w))"
      "w1 = snd (getFromCache l (chapterKey l ch) w)"
      "fileMapping (chapterId ch) = Undefined \<or>
       failed (snd (network P (chapterUrl P l ch (clock w1))))"
      by blast+
    show "\<exists>msg. fst (fetchChapterContent P l ch w) = Inr (Text (chapterError msg))"
      "localStorage (snd (fetchChapterContent P l ch w)) = localStorage w1"
      "filter isSetItem (effects (snd (fetchChapterContent P l ch w))) =
        filter isSetItem (effects w)"
      "\<not> truthy (fst (getFromCache l (chapterKey l ch) (snd (fetchChapterContent P l ch w))))"
      using forChapter[OF *] by blast+
  next
    fix f w1
    assume "exercise ch = Some f \<and> f \<noteq> [] \<and>
      \<not> truthy (fst (getFromCache l (exerciseKey l ch) w)) \<and>
      w1 = snd (getFromCache l (exerciseKey l ch) w) \<and>
      failed (snd (network P (exerciseUrl l f (clock w1))))"
    then have *: "exercise ch = Some f" "f \<noteq> []"
      "\<not> truthy (fst (getFromCache l (exerciseKey l ch) w))"
      "w1 = snd (getFromCache l (exerciseKey l ch) w)"
      "failed (snd (network P (exerciseUrl l f (clock w1))))"
      by blast+
    show "fst (fetchExerciseContent P l ch w) = Inr (Text [])"
      "localStorage (snd (fetchExerciseContent P l ch w)) = localStorage w1"
      "filter isSetItem (effects (snd (fetchExerciseContent P l ch w))) =
        filter isSetItem (effects w)"
      "\<not> truthy (fst (getFromCache l (exerciseKey l ch) (snd (fetchExerciseContent P l ch w))))"
      using forExercise[OF *] by blast+
  qed
qed


lemma getFromCache_empty:
  "getFromCache l key freshWorld = (None, freshWorld)"
  by (simp add: getFromCache_def freshWorld_def)

theorem fetchExerciseContent_soft_witness:
  "noExercise (exampleChapter (utf16 ''1.0'') (utf16 ''10 min'')) \<and>
   fetchExerciseContent (answering (htmlResponse 200 (utf16 ''<p>Aufgabe</p>'')))
     (CourseLoader [] noOptions) (exampleChapter (utf16 ''1.0'') (utf16 ''10 min'')) freshWorld =
     (Inr (Text []), freshWorld) \<and>
   failed (snd (network (answering (htmlResponse 404 (utf16 ''Not Found'')))
     (exerciseUrl (CourseLoader [] noOptions) (utf16 ''uebung1.1.html'') 1000))) \<and>
   fst (fetchExerciseContent (answering (htmlResponse 404 (utf16 ''Not Found'')))
     (CourseLoader [] noOptions)
     ((exampleChapter (utf16 ''1.1'') (utf16 ''5 min''))\<lparr> exercise := Some (utf16 ''uebung1.1.html'') \<rparr>)
     freshWorld) = Inr (Text []) \<and>
   fst (fetchExerciseContent (answering (htmlResponse 200 (utf16 ''<p>Aufgabe</p>'')))
     (CourseLoader [] noOptions)
     ((exampleChapter (utf16 ''1.1'') (utf16 ''5 min''))\<lparr> exercise := Some (utf16 ''uebung1.1.html'') \<rparr>)
     freshWorld) =
     Inr (Text (extractContent (CourseLoader [] noOptions) (utf16 ''<p>Aufgabe</p>'')))"
proof -
  let ?l = "CourseLoader [] noOptions"
  let ?c0 = "exampleChapter (utf16 ''1.0'') (utf16 ''10 min'')"
  let ?c1 = "(exampleChapter (utf16 ''1.1'') (utf16 ''5 min''))\<lparr> exercise := Some (utf16 ''uebung1.1.html'') \<rparr>"
  let ?bad = "htmlResponse 404 (utf16 ''Not Found'')"
  let ?good = "htmlResponse 200 (utf16 ''<p>Aufgabe</p>'')"
  have none: "noExercise ?c0" by (simp add: noExercise_def exampleChapter_def)
  have ex: "exercise ?c1 = Some (utf16 ''uebung1.1.html'')" "utf16 ''uebung1.1.html'' \<noteq> []"
    by (simp_all add: utf16_def)
  have miss: "\<not> truthy (fst (getFromCache ?l (exerciseKey ?l ?c1) freshWorld))"
    and w1: "freshWorld = snd (getFromCache ?l (exerciseKey ?l ?c1) freshWorld)"
    by (simp_all add: getFromCache_empty)
  have t: "clock freshWorld = 1000" by (simp add: freshWorld_def)
  have nb: "snd (network (answering ?bad) (exerciseUrl ?l (utf16 ''uebung1.1.html'') 1000)) = Resolved ?bad"
    and ng: "snd (network (answering ?good) (exerciseUrl ?l (utf16 ''uebung1.1.html'') 1000)) = Resolved ?good"
    by (simp_all add: answering_def)
  have fb: "failed (Resolved ?bad)" by (simp add: ok_def htmlResponse_def)
  have og: "ok ?good \<and> bodyText ?good = Inr (utf16 ''<p>Aufgabe</p>'')"
    by (simp add: ok_def htmlResponse_def)
  from fetchExerciseContent_soft[of ?c0 "answering ?good" ?l freshWorld] none
  have 1: "fetchExerciseContent (answering ?good) ?l ?c0 freshWorld = (Inr (Text []), freshWorld)"
    by blast
  from fetchExerciseContent_soft[of ?c1 "answering ?bad" ?l freshWorld] ex miss w1 nb fb t
  have 2: "fst (fetchExerciseContent (answering ?bad) ?l ?c1 freshWorld) = Inr (Text [])"
    by metis
  from fetchExerciseContent_soft[of ?c1 "answering ?good" ?l freshWorld] ex miss w1 ng og t
  have 3: "fst (fetchExerciseContent (answering ?good) ?l ?c1 freshWorld) =
      Inr (Text (extractContent ?l (utf16 ''<p>Aufgabe</p>'')))"
    by metis
  from none 1 2 3 nb fb show ?thesis by simp
qed

theorem failures_are_not_cached_witness:
  "fileMapping (chapterId (exampleChapter (utf16 ''2.0'') (utf16 ''10 min''))) = Undefined \<and>
   \<not> truthy (fst (getFromCache (CourseLoader [] noOptions)
      (chapterKey (CourseLoader [] noOptions) (exampleChapter (utf16 ''2.0'') (utf16 ''10 min'')))
      freshWorld)) \<and>
   localStorage (snd (fetchChapterContent offline (CourseLoader [] noOptions)
      (exampleChapter (utf16 ''2.0'') (utf16 ''10 min'')) freshWorld)) = localStorage freshWorld \<and>
   filter isSetItem (effects (snd (fetchChapterContent offline (CourseLoader [] noOptions)
      (exampleChapter (utf16 ''2.0'') (utf16 ''10 min'')) freshWorld))) = [] \<and>
   failed (snd (network offline (chapterUrl offline (CourseLoader [] noOptions)
      (exampleChapter (utf16 ''1.0'') (utf16 ''10 min'')) 1000))) \<and>
   localStorage (snd (fetchChapterContent offline (CourseLoader [] noOptions)
      (exampleChapter (utf16 ''1.0'') (utf16 ''10 min'')) freshWorld)) = localStorage freshWorld \<and>
   fst (fetchExerciseContent offline (CourseLoader [] noOptions)
     ((exampleChapter (utf16 ''1.1'') (utf16 ''5 min''))\<lparr> exercise := Some (utf16 ''uebung1.1.html'') \<rparr>)
     freshWorld) = Inr (Text []) \<and>
   localStorage (snd (fetchExerciseContent offline (CourseLoader [] noOptions)
     ((exampleChapter (utf16 ''1.1'') (utf16 ''5 min''))\<lparr> exercise := Some (utf16 ''uebung1.1.html'') \<rparr>)
     freshWorld)) = localStorage freshWorld"
proof -
  let ?l = "CourseLoader [] noOptions"
  let ?c2 = "exampleChapter (utf16 ''2.0'') (utf16 ''10 min'')"
  let ?c0 = "exampleChapter (utf16 ''1.0'') (utf16 ''10 min'')"
  let ?c1 = "(exampleChapter (utf16 ''1.1'') (utf16 ''5 min''))\<lparr> exercise := Some (utf16 ''uebung1.1.html'') \<rparr>"
  have u: "fileMapping (chapterId ?c2) = Undefined"
    by (simp add: fileMapping_def fileMappingTable_def objectPrototype_def exampleChapter_def utf16_def)
  have miss: "\<not> truthy (fst (getFromCache ?l key freshWorld))"
    and w1: "freshWorld = snd (getFromCache ?l key freshWorld)" for key
    by (simp_all add: getFromCache_empty)
  have t: "clock freshWorld = 1000" and e0: "effects freshWorld = []"
    by (simp_all add: freshWorld_def)
  have f: "failed (snd (network offline url))" for url
    by (simp add: offline_def)
  have ex: "exercise ?c1 = Some (utf16 ''uebung1.1.html'')" "utf16 ''uebung1.1.html'' \<noteq> []"
    by (simp_all add: utf16_def)
  from failures_are_not_cached[of ?l ?c2 freshWorld offline] u miss w1
  have 1: "localStorage (snd (fetchChapterContent offline ?l ?c2 freshWorld)) = localStorage freshWorld"
    "filter isSetItem (effects (snd (fetchChapterContent offline ?l ?c2 freshWorld))) = []"
    by (metis e0 filter.simps(1))+
  from failures_are_not_cached[of ?l ?c0 freshWorld offline] f miss w1
  have 2: "localStorage (snd (fetchChapterContent offline ?l ?c0 freshWorld)) = localStorage freshWorld"
    by metis
  from failures_are_not_cached[of ?l ?c1 freshWorld offline] f miss w1 ex
  have 3: "fst (fetchExerciseContent offline ?l ?c1 freshWorld) = Inr (Text [])"
    "localStorage (snd (fetchExerciseContent offline ?l ?c1 freshWorld)) = localStorage freshWorld"
    by metis+
  from u miss f 1 2 3 show ?thesis by simp
qed

text \<open>
  C4 at a chapter whose id is \<^verbatim>\<open>constructor\<close>: the id is not a key of the table, but the
  look-up finds the member of that name that every object inherits, so no error is thrown
  for the missing file; the loader requests a file named by the text of that member, and a
  server that answers 200 has its body returned as the chapter and cached.
\<close>

theorem fetchChapterContent_inherited_member:
  "map_of fileMappingTable (utf16 ''constructor'') = None \<and>
   fileMapping (utf16 ''constructor'') = Inherited (utf16 ''constructor'') \<and>
   fst (fetchChapterContent (answering (htmlResponse 200 (utf16 ''<p>Startseite</p>'')))
     (CourseLoader [] noOptions) (exampleChapter (utf16 ''constructor'') (utf16 ''10 min''))
     freshWorld) = Inr (Text (utf16 ''<p>Startseite</p>'')) \<and>
   localStorage (snd (fetchChapterContent (answering (htmlResponse 200 (utf16 ''<p>Startseite</p>'')))
     (CourseLoader [] noOptions) (exampleChapter (utf16 ''constructor'') (utf16 ''10 min''))
     freshWorld))
     (storageKey (CourseLoader [] noOptions) (chapterKey (CourseLoader [] noOptions)
        (exampleChapter (utf16 ''constructor'') (utf16 ''10 min'')))) =
     Some (Envelope (Text (utf16 ''<p>Startseite</p>'')) 1025)"
proof -
  let ?l = "CourseLoader [] noOptions"
  let ?c = "exampleChapter (utf16 ''constructor'') (utf16 ''10 min'')"
  let ?P = "answering (htmlResponse 200 (utf16 ''<p>Startseite</p>''))"
  have m: "map_of fileMappingTable (utf16 ''constructor'') = None"
    by (simp add: fileMappingTable_def utf16_def)
  have i: "fileMapping (utf16 ''constructor'') = Inherited (utf16 ''constructor'')"
    by (simp add: fileMapping_def m) (simp add: objectPrototype_def)
  have id: "chapterId ?c = utf16 ''constructor''" by (simp add: exampleChapter_def)
  have mk: "marker ?l = sentinel" and on: "cacheEnabled ?l"
    by (simp_all add: CourseLoader_def Let_def noOptions_def)
  have e: "extractContent ?l (utf16 ''<p>Startseite</p>'') = utf16 ''<p>Startseite</p>''"
    by (rule extractContent_unmarked[OF mk]) code_simp
  have n: "network ?P url = (25, Resolved (htmlResponse 200 (utf16 ''<p>Startseite</p>'')))" for url
    by (simp add: answering_def)
  have okr: "ok (htmlResponse 200 (utf16 ''<p>Startseite</p>''))"
    "bodyText (htmlResponse 200 (utf16 ''<p>Startseite</p>'')) = Inr (utf16 ''<p>Startseite</p>'')"
    by (simp_all add: ok_def htmlResponse_def)
  have t: "fetchChapterTry ?P ?l ?c (chapterKey ?l ?c) freshWorld =
      (Inr (Text (utf16 ''<p>Startseite</p>'')),
       saveToCache ?l (chapterKey ?l ?c) (Text (utf16 ''<p>Startseite</p>''))
         (freshWorld\<lparr> clock := clock freshWorld + 25,
            effects := effects freshWorld @ [Fetch (chapterUrl ?P ?l ?c (clock freshWorld))] \<rparr>))"
    by (simp add: fetchChapterTry_def Let_def id i fetch_network[OF n] okr e)
  have r: "fetchChapterContent ?P ?l ?c freshWorld =
      (Inr (Text (utf16 ''<p>Startseite</p>'')),
       saveToCache ?l (chapterKey ?l ?c) (Text (utf16 ''<p>Startseite</p>''))
         (freshWorld\<lparr> clock := clock freshWorld + 25,
            effects := effects freshWorld @ [Fetch (chapterUrl ?P ?l ?c (clock freshWorld))] \<rparr>))"
    using fetchChapterContent_miss[OF getFromCache_empty _ t] by simp
  show ?thesis
    by (simp add: m i r) (simp add: saveToCache_def on freshWorld_def)
qed

text \<open>
  \<open>fetchChapterContent\<close> never throws: whatever the chapter, the browser and the world, it
  returns a value.
\<close>

theorem fetchChapterContent_never_throws:
  "\<exists>d. fst (fetchChapterContent P l ch w) = Inr d"
  by (auto simp: fetchChapterContent_def Let_def split: prod.splits option.splits sum.splits if_splits)


text \<open>
  On a cache miss, \<open>fetchChapterContent\<close> returns the error fragment with the message of
  the failure: that no file is defined for the chapter when the look-up of its id finds
  nothing, the message of the network error, or \<^verbatim>\<open>HTTP\<close> and the status.
\<close>

theorem fetchChapterContent_error_fragment:
  assumes miss: "\<not> truthy (fst (getFromCache l (chapterKey l ch) w))"
    and w1: "w1 = snd (getFromCache l (chapterKey l ch) w)"
  shows "(fileMapping (chapterId ch) = Undefined \<longrightarrow>
            fst (fetchChapterContent P l ch w) = Inr (Text (chapterError (unmappedMessage ch)))) \<and>
         (\<forall>elapsed e.
            fileMapping (chapterId ch) \<noteq> Undefined \<and>
            network P (chapterUrl P l ch (clock w1)) = (elapsed, Rejected e) \<longrightarrow>
            fst (fetchChapterContent P l ch w) = Inr (Text (chapterError (message e)))) \<and>
         (\<forall>elapsed r.
            fileMapping (chapterId ch) \<noteq> Undefined \<and>
            network P (chapterUrl P l ch (clock w1)) = (elapsed, Resolved r) \<and> \<not> ok r \<longrightarrow>
            fst (fetchChapterContent P l ch w) =
              Inr (Text (chapterError (utf16 ''HTTP '' @ decimal (status r)))))"
proof -
  from miss w1 obtain cached where g: "getFromCache l (chapterKey l ch) w = (cached, w1)"
    "\<not> truthy cached"
    by (rule cache_miss_cases) blast
  have r: "fst (fetchChapterContent P l ch w) =
      (case fst (fetchChapterTry P l ch (chapterKey l ch) w1) of
         Inr content \<Rightarrow> Inr content
       | Inl error \<Rightarrow> Inr (Text (chapterError (message error))))"
    using fetchChapterContent_miss[OF g, of P "fst (fetchChapterTry P l ch (chapterKey l ch) w1)"
        "snd (fetchChapterTry P l ch (chapterKey l ch) w1)"]
    by simp
  show ?thesis
    by (auto simp: r fetchChapterTry_def Let_def missing_fileMapping fetch_network httpError_def)
qed

theorem fetchChapterContent_error_fragment_witness:
  "fileMapping (chapterId (exampleChapter (utf16 ''2.0'') (utf16 ''10 min''))) = Undefined \<and>
   fst (fetchChapterContent offline (CourseLoader [] noOptions)
      (exampleChapter (utf16 ''2.0'') (utf16 ''10 min'')) freshWorld) =
     Inr (Text (chapterError (utf16 ''Keine Datei f'' @ [0xFC] @ utf16 ''r Kapitel 2.0 definiert''))) \<and>
   fileMapping (chapterId (exampleChapter (utf16 ''1.0'') (utf16 ''10 min''))) =
     Own (utf16 ''seite1.0_baumax_app.html'') \<and>
   fst (fetchChapterContent offline (CourseLoader [] noOptions)
      (exampleChapter (utf16 ''1.0'') (utf16 ''10 min'')) freshWorld) =
     Inr (Text (chapterError (utf16 ''Failed to fetch''))) \<and>
   fst (fetchChapterContent (answering (htmlResponse 404 (utf16 ''Not Found'')))
      (CourseLoader [] noOptions) (exampleChapter (utf16 ''1.0'') (utf16 ''10 min'')) freshWorld) =
     Inr (Text (chapterError (utf16 ''HTTP 404'')))"
proof -
  let ?l = "CourseLoader [] noOptions"
  let ?c2 = "exampleChapter (utf16 ''2.0'') (utf16 ''10 min'')"
  let ?c0 = "exampleChapter (utf16 ''1.0'') (utf16 ''10 min'')"
  let ?bad = "htmlResponse 404 (utf16 ''Not Found'')"
  have u: "fileMapping (chapterId ?c2) = Undefined"
    by (simp add: fileMapping_def fileMappingTable_def objectPrototype_def exampleChapter_def utf16_def)
  have o: "fileMapping (chapterId ?c0) = Own (utf16 ''seite1.0_baumax_app.html'')"
    by (simp add: fileMapping_def fileMappingTable_def exampleChapter_def utf16_def)
  then have nu: "fileMapping (chapterId ?c0) \<noteq> Undefined" by simp
  have miss: "\<not> truthy (fst (getFromCache ?l key freshWorld))"
    and w1: "freshWorld = snd (getFromCache ?l key freshWorld)" for key
    by (simp_all add: getFromCache_empty)
  have n1: "network offline url = (0, Rejected (Error (utf16 ''Failed to fetch'')))" for url
    by (simp add: offline_def)
  have n2: "network (answering ?bad) url = (25, Resolved ?bad)" for url
    by (simp add: answering_def)
  have bad: "\<not> ok ?bad" by (simp add: ok_def htmlResponse_def)
  have m: "unmappedMessage ?c2 = utf16 ''Keine Datei f'' @ [0xFC] @ utf16 ''r Kapitel 2.0 definiert''"
    by (simp add: unmappedMessage_def exampleChapter_def utf16_def)
  have st: "utf16 ''HTTP '' @ decimal (status ?bad) = utf16 ''HTTP 404''"
    by (simp add: htmlResponse_def digit_def utf16_def)
  from fetchChapterContent_error_fragment[OF miss w1, of ?c2 offline] u m
  have 1: "fst (fetchChapterContent offline ?l ?c2 freshWorld) =
     Inr (Text (chapterError (utf16 ''Keine Datei f'' @ [0xFC] @ utf16 ''r Kapitel 2.0 definiert'')))"
    by simp
  from fetchChapterContent_error_fragment[OF miss w1, of ?c0 offline] nu n1
  have 2: "fst (fetchChapterContent offline ?l ?c0 freshWorld) =
     Inr (Text (chapterError (utf16 ''Failed to fetch'')))"
    by (metis js_error.sel)
  from fetchChapterContent_error_fragment[OF miss w1, of ?c0 "answering ?bad"] nu n2 bad st
  have 3: "fst (fetchChapterContent (answering ?bad) ?l ?c0 freshWorld) =
     Inr (Text (chapterError (utf16 ''HTTP 404'')))"
    by metis
  from u o 1 2 3 show ?thesis by simp
qed

text \<open>
  At the time \<open>T + D\<close> itself the entry is still returned: the test is
  \<^verbatim>\<open>now - timestamp > cacheDuration\<close>.
\<close>

theorem cache_entry_served_at_ttl:
  assumes on: "cacheEnabled l" and avail: "storageMode w0 = Available"
    and kept: "localStorage w (storageKey l key) =
        localStorage (saveToCache l key d w0) (storageKey l key)"
    and readable: "storageMode w \<noteq> Blocked"
    and boundary: "clock w = clock w0 + cacheDuration l"
  shows "getFromCache l key w = (Some d, w)"
proof -
  have "localStorage w (storageKey l key) = Some (Envelope d (clock w0))"
    using on avail by (simp add: kept saveToCache_def)
  then show ?thesis using on readable boundary by (simp add: getFromCache_def)
qed

theorem cache_entry_served_at_ttl_witness:
  "getFromCache (CourseLoader [] noOptions) (utf16 ''chapter_situation_1_1.0'')
     ((saveToCache (CourseLoader [] noOptions) (utf16 ''chapter_situation_1_1.0'')
        (Text (utf16 ''<p>Hallo</p>'')) freshWorld)\<lparr> clock := 3601000 \<rparr>) =
     (Some (Text (utf16 ''<p>Hallo</p>'')),
      (saveToCache (CourseLoader [] noOptions) (utf16 ''chapter_situation_1_1.0'')
        (Text (utf16 ''<p>Hallo</p>'')) freshWorld)\<lparr> clock := 3601000 \<rparr>)"
proof -
  let ?l = "CourseLoader [] noOptions"
  let ?k = "utf16 ''chapter_situation_1_1.0''"
  let ?d = "Text (utf16 ''<p>Hallo</p>'')"
  let ?w1 = "saveToCache ?l ?k ?d freshWorld"
  have on: "cacheEnabled ?l" and dur: "cacheDuration ?l = 3600000"
    by (simp_all add: CourseLoader_def Let_def noOptions_def orNumber_def)
  have avail: "storageMode freshWorld = Available" and t0: "clock freshWorld = 1000"
    by (simp_all add: freshWorld_def)
  have mode: "storageMode ?w1 = Available"
    using on avail by (simp add: saveToCache_def)
  show ?thesis
    using cache_entry_served_at_ttl[OF on avail, of "?w1\<lparr> clock := 3601000 \<rparr>" ?k ?d]
    by (simp add: mode dur t0)
qed

end
